theory Spec2Isabelle
  imports Complex_Main "HOL-Library.AList" "HOL-Library.Char_ord" "HOL-Library.List_Lexorder"
begin

section \<open>Data model (app/models/job.py)\<close>

datatype JobStatus = PENDING | QUEUED | RUNNING | COMPLETED | FAILED | RETRYING | CANCELLED

datatype JobType = EMAIL | AI_TASK | DATA_CLEANING

text \<open>
  Payloads, results and published messages are JSON documents (Python dicts).
\<close>

datatype json = JNull | JBool bool | JNum real | JStr string
  | JArr "json list" | JObj "(string \<times> json) list"

text \<open>
  A job id is a \<open>uuid.UUID\<close>; the queue holds \<open>str(job.id)\<close>. The model identifies a
  UUID with its canonical text, so \<open>str\<close> and \<open>uuid.UUID(...)\<close> are the identity.
  Instants (\<open>datetime\<close>) are seconds on the real line and \<open>float\<close> is idealised as
  \<open>real\<close>: rounding and range errors of float and datetime arithmetic are outside the
  model.
\<close>

type_synonym uuid = string
type_synonym datetime = real

record Job =
  job_id :: uuid
  name :: string
  job_type :: JobType
  status :: JobStatus
  priority :: int
  payload :: json
  result :: "json option"
  error_message :: "string option"
  attempt :: int
  max_retries :: int
  next_retry_at :: "datetime option"
  created_at :: datetime
  scheduled_at :: "datetime option"
  started_at :: "datetime option"
  completed_at :: "datetime option"
  duration_seconds :: "real option"
  created_by :: "string option"
  worker_id :: "string option"

text \<open>\<open>JobStatus.value\<close>: the string of a status member.\<close>

fun status_value :: "JobStatus \<Rightarrow> string" where
  "status_value PENDING = ''pending''"
| "status_value QUEUED = ''queued''"
| "status_value RUNNING = ''running''"
| "status_value COMPLETED = ''completed''"
| "status_value FAILED = ''failed''"
| "status_value RETRYING = ''retrying''"
| "status_value CANCELLED = ''cancelled''"

section \<open>Settings (app/config.py)\<close>

record Settings =
  MAX_WORKERS :: nat
  MAX_RETRIES :: int
  RETRY_BACKOFF_BASE :: real
  JOB_TIMEOUT_SECONDS :: int

definition default_settings :: Settings where
  "default_settings =
     \<lparr>MAX_WORKERS = 10, MAX_RETRIES = 5, RETRY_BACKOFF_BASE = 2, JOB_TIMEOUT_SECONDS = 300\<rparr>"

section \<open>Python string formatting\<close>

text \<open>The decimal digit \<open>n\<close>, for \<open>n < 10\<close>.\<close>

definition digit_char :: "nat \<Rightarrow> char" where
  "digit_char n = ''0123456789'' ! n"

function str_nat :: "nat \<Rightarrow> string" where
  "str_nat n = (if n < 10 then [digit_char n] else str_nat (n div 10) @ [digit_char (n mod 10)])"
  by pat_completeness auto
termination
  by (relation "measure (\<lambda>n. n)") auto

declare str_nat.simps [simp del]

text \<open>\<open>str(i)\<close> of a Python int, as an f-string renders it.\<close>

definition str_int :: "int \<Rightarrow> string" where
  "str_int i = (if i < 0 then CHR ''-'' # str_nat (nat (- i)) else str_nat (nat i))"

section \<open>The job table\<close>

text \<open>
  The table is the list of its rows; \<open>id\<close> is the primary key, so a lookup by id yields
  at most one row. A commit writes the columns that the session changed on the row of
  that id. The session factory (app/database.py) is not among the sources: sessions are
  taken to commit successfully and to keep a loaded job readable after the commit.
\<close>

definition get_row :: "uuid \<Rightarrow> Job list \<Rightarrow> Job option" where
  "get_row jid rows = find (\<lambda>j. job_id j = jid) rows"

definition update_row :: "uuid \<Rightarrow> (Job \<Rightarrow> Job) \<Rightarrow> Job list \<Rightarrow> Job list" where
  "update_row jid f rows = map (\<lambda>j. if job_id j = jid then f j else j) rows"

section \<open>The priority queue (app/redis_client.py)\<close>

text \<open>
  The Redis keys the queue uses: the sorted set \<open>job_queue:priority\<close> (each member once,
  with its score), the set \<open>job_queue:processing\<close>, the hash \<open>job_stats\<close>, and the
  messages published on the channel \<open>job_events\<close>, oldest first.
\<close>

record Redis =
  queue :: "(uuid \<times> int) list"
  processing :: "uuid set"
  stats :: "string \<rightharpoonup> int"
  events :: "(string \<times> json) list list"

text \<open>\<open>ZADD\<close> stores the score of a new member and replaces that of a present one.\<close>

definition enqueue :: "uuid \<Rightarrow> int \<Rightarrow> Redis \<Rightarrow> Redis" where
  "enqueue jid prio r = (let score = - prio in r\<lparr>queue := AList.update jid score (queue r)\<rparr>)"

text \<open>
  \<open>ZPOPMIN\<close> takes the member of least score, and among those of equal score the
  least member in byte order.
\<close>

definition zless :: "uuid \<times> int \<Rightarrow> uuid \<times> int \<Rightarrow> bool" where
  "zless x y = (snd x < snd y \<or> (snd x = snd y \<and> fst x < fst y))"

fun zmin :: "uuid \<times> int \<Rightarrow> (uuid \<times> int) list \<Rightarrow> uuid \<times> int" where
  "zmin m [] = m"
| "zmin m (x # xs) = zmin (if zless x m then x else m) xs"

definition dequeue :: "Redis \<Rightarrow> uuid option \<times> Redis" where
  "dequeue r =
     (case queue r of
        [] \<Rightarrow> (None, r)
      | e # es \<Rightarrow>
          let jid = fst (zmin e es)
          in (Some jid, r\<lparr>queue := AList.delete jid (queue r),
                           processing := insert jid (processing r)\<rparr>))"

definition mark_done :: "uuid \<Rightarrow> Redis \<Rightarrow> Redis" where
  "mark_done jid r = r\<lparr>processing := processing r - {jid}\<rparr>"

definition remove_job :: "uuid \<Rightarrow> Redis \<Rightarrow> Redis" where
  "remove_job jid r =
     r\<lparr>queue := AList.delete jid (queue r), processing := processing r - {jid}\<rparr>"

definition stat :: "Redis \<Rightarrow> string \<Rightarrow> int" where
  "stat r stat_name = (case stats r stat_name of None \<Rightarrow> 0 | Some v \<Rightarrow> v)"

definition increment_stat :: "string \<Rightarrow> int \<Rightarrow> Redis \<Rightarrow> Redis" where
  "increment_stat stat_name amount r =
     r\<lparr>stats := (stats r)(stat_name \<mapsto> stat r stat_name + amount)\<rparr>"

definition publish_event :: "string \<Rightarrow> (string \<times> json) list \<Rightarrow> Redis \<Rightarrow> Redis" where
  "publish_event event_type data r =
     r\<lparr>events := events r @ [(''event'', JStr event_type) # data]\<rparr>"

text \<open>
  The world the core acts on: the job table and the queue backend. \<open>get_redis()\<close> returns
  \<open>None\<close> exactly when \<open>USE_REDIS\<close> is false; the world holds \<open>None\<close> then.
\<close>

record World =
  jobs :: "Job list"
  redis :: "Redis option"

definition with_redis :: "(Redis \<Rightarrow> Redis) \<Rightarrow> World \<Rightarrow> World" where
  "with_redis f w = (case redis w of None \<Rightarrow> w | Some r \<Rightarrow> w\<lparr>redis := Some (f r)\<rparr>)"

section \<open>The executor (app/workers/executor.py)\<close>

text \<open>
  \<open>_claim_job\<close>: \<open>locked\<close> is the set of ids whose rows other transactions hold locked
  when the \<open>SELECT ... FOR UPDATE SKIP LOCKED\<close> runs.
\<close>

definition claim_job ::
  "string \<Rightarrow> datetime \<Rightarrow> uuid set \<Rightarrow> uuid \<Rightarrow> Job list \<Rightarrow> Job option \<times> Job list" where
  "claim_job wid now locked jid rows =
     (case find (\<lambda>j. job_id j = jid \<and> status j \<in> {PENDING, QUEUED, RETRYING}
                      \<and> jid \<notin> locked) rows of
        None \<Rightarrow> (None, rows)
      | Some job \<Rightarrow>
          let claim = (\<lambda>j. j\<lparr>status := RUNNING, started_at := Some now,
                              attempt := attempt j + 1, worker_id := Some wid\<rparr>)
          in (Some (claim job), update_row jid claim rows))"

text \<open>
  What awaiting \<open>asyncio.wait_for(handler(job.payload), timeout)\<close> yields: the handler's
  result, an exception \<open>e\<close> of the handler (carried as \<open>str(e)\<close>), or the timeout.
\<close>

datatype handler_outcome = Returned json | Raised string | TimedOut

type_synonym handler = "json \<Rightarrow> handler_outcome"

text \<open>
  \<open>_complete_job\<close>. The log line formats \<open>duration\<close> with \<open>:.2f\<close> after the commit, which
  raises \<open>TypeError\<close> when \<open>started_at\<close> is unset: \<open>Inl\<close> carries \<open>str\<close> of that exception
  and the state reached, in which the queue has not been told.
\<close>

definition complete_job ::
  "datetime \<Rightarrow> Job \<Rightarrow> json \<Rightarrow> World \<Rightarrow> (string \<times> Job \<times> World) + (Job \<times> World)" where
  "complete_job now job res w =
     (let duration = (case started_at job of None \<Rightarrow> None | Some s \<Rightarrow> Some (now - s));
          complete = (\<lambda>j. j\<lparr>status := COMPLETED, result := Some res,
                              completed_at := Some now, duration_seconds := duration,
                              error_message := None\<rparr>);
          w1 = w\<lparr>jobs := update_row (job_id job) complete (jobs w)\<rparr>
      in case duration of
           None \<Rightarrow>
             Inl (''unsupported format string passed to NoneType.__format__'',
                  complete job, w1)
         | Some d \<Rightarrow>
             Inr (complete job,
                  with_redis (\<lambda>r. publish_event ''job_completed''
                                     [(''job_id'', JStr (job_id job)), (''duration'', JNum d)]
                                     (increment_stat ''completed'' 1
                                        (mark_done (job_id job) r))) w1))"

text \<open>\<open>_fail_job\<close>.\<close>

definition fail_job :: "datetime \<Rightarrow> Job \<Rightarrow> string \<Rightarrow> World \<Rightarrow> Job \<times> World" where
  "fail_job now job error w =
     (let fail = (\<lambda>j. j\<lparr>status := FAILED, error_message := Some error,
                          completed_at := Some now,
                          duration_seconds :=
                            (case started_at job of None \<Rightarrow> duration_seconds j
                             | Some s \<Rightarrow> Some (now - s))\<rparr>);
          w1 = w\<lparr>jobs := update_row (job_id job) fail (jobs w)\<rparr>
      in (fail job,
          with_redis (\<lambda>r. publish_event ''job_failed''
                             [(''job_id'', JStr (job_id job)), (''error'', JStr error)]
                             (increment_stat ''failed'' 1 (mark_done (job_id job) r))) w1))"

text \<open>\<open>_handle_failure\<close>.\<close>

definition handle_failure ::
  "Settings \<Rightarrow> datetime \<Rightarrow> Job \<Rightarrow> string \<Rightarrow> World \<Rightarrow> Job \<times> World" where
  "handle_failure cfg now job error w =
     (if attempt job < max_retries job then
        let backoff = RETRY_BACKOFF_BASE cfg powi attempt job;
            retry = (\<lambda>j. j\<lparr>status := RETRYING, next_retry_at := Some (now + backoff),
                             error_message :=
                               Some (''Attempt '' @ str_int (attempt job) @ '' failed: ''
                                     @ error)\<rparr>);
            w1 = w\<lparr>jobs := update_row (job_id job) retry (jobs w)\<rparr>
        in (retry job,
            with_redis (\<lambda>r. increment_stat ''retries'' 1 (mark_done (job_id job) r)) w1)
      else fail_job now job error w)"

text \<open>
  \<open>execute\<close>. \<open>HANDLER_MAP\<close> is the handler registry, \<open>fmt\<close> is how an f-string renders
  a \<open>JobType\<close> member, \<open>t_claim\<close> and \<open>t_end\<close> are the clock readings at the claim and
  at the outcome.
\<close>

definition execute ::
  "Settings \<Rightarrow> (JobType \<Rightarrow> string) \<Rightarrow> (JobType \<rightharpoonup> handler) \<Rightarrow> string \<Rightarrow> datetime \<Rightarrow> datetime
     \<Rightarrow> uuid set \<Rightarrow> uuid \<Rightarrow> World \<Rightarrow> bool \<times> World" where
  "execute cfg fmt HANDLER_MAP wid t_claim t_end locked jid w =
     (case claim_job wid t_claim locked jid (jobs w) of
        (None, _) \<Rightarrow> (False, w)
      | (Some job, rows) \<Rightarrow>
          let w1 = w\<lparr>jobs := rows\<rparr> in
          (case HANDLER_MAP (job_type job) of
             None \<Rightarrow>
               (False, snd (fail_job t_end job
                              (''No handler for type: '' @ fmt (job_type job)) w1))
           | Some handler \<Rightarrow>
               (case handler (payload job) of
                  Returned res \<Rightarrow>
                    (case complete_job t_end job res w1 of
                       Inr (_, w2) \<Rightarrow> (True, w2)
                     | Inl (e, job2, w2) \<Rightarrow>
                         (False, snd (handle_failure cfg t_end job2 e w2)))
                | TimedOut \<Rightarrow>
                    (False, snd (handle_failure cfg t_end job
                                   (''Job timed out after ''
                                    @ str_int (JOB_TIMEOUT_SECONDS cfg) @ ''s'') w1))
                | Raised e \<Rightarrow> (False, snd (handle_failure cfg t_end job e w1)))))"

section \<open>The retry scheduler (app/workers/manager.py)\<close>

text \<open>Python's \<open>x or d\<close> on an optional int: \<open>None\<close> and \<open>0\<close> are falsy.\<close>

definition py_or :: "int option \<Rightarrow> int \<Rightarrow> int" where
  "py_or x d = (case x of None \<Rightarrow> d | Some v \<Rightarrow> if v = 0 then d else v)"

text \<open>The scan's filter; a comparison with a NULL \<open>next_retry_at\<close> selects nothing.\<close>

definition due :: "datetime \<Rightarrow> Job \<Rightarrow> bool" where
  "due now j =
     (status j = RETRYING \<and> (case next_retry_at j of None \<Rightarrow> False | Some t \<Rightarrow> t \<le> now))"

text \<open>The body of \<open>for jid in retry_ids\<close>.\<close>

definition retry_one :: "uuid set \<Rightarrow> uuid \<Rightarrow> World \<Rightarrow> World" where
  "retry_one locked jid w =
     (case redis w of
        Some r \<Rightarrow>
          let prio = py_or (map_option priority (get_row jid (jobs w))) 5
          in w\<lparr>redis := Some (enqueue jid prio r)\<rparr>
      | None \<Rightarrow>
          (case find (\<lambda>j. job_id j = jid \<and> jid \<notin> locked) (jobs w) of
             None \<Rightarrow> w
           | Some job_obj \<Rightarrow>
               w\<lparr>jobs := update_row jid (\<lambda>j. j\<lparr>status := QUEUED, next_retry_at := None\<rparr>)
                            (jobs w)\<rparr>))"

text \<open>One pass of \<open>_retry_loop\<close>, after its sleep.\<close>

definition retry_sweep :: "Settings \<Rightarrow> datetime \<Rightarrow> uuid set \<Rightarrow> World \<Rightarrow> World" where
  "retry_sweep cfg now locked w =
     (let retry_ids = map job_id (take (MAX_WORKERS cfg) (filter (due now) (jobs w)))
      in fold (retry_one locked) retry_ids w)"

section \<open>The dispatcher's pull (app/workers/manager.py)\<close>

text \<open>
  \<open>_dequeue_job\<close>: the queue first, then the table. The fallback reads, among the rows
  that are PENDING or QUEUED, due and not locked by another transaction, the one of
  highest priority and, among those, of earliest \<open>created_at\<close>; it writes nothing.
\<close>

definition eligible :: "datetime \<Rightarrow> uuid set \<Rightarrow> Job \<Rightarrow> bool" where
  "eligible now locked j =
     (status j \<in> {PENDING, QUEUED}
      \<and> (case scheduled_at j of None \<Rightarrow> True | Some t \<Rightarrow> t \<le> now)
      \<and> job_id j \<notin> locked)"

definition ordered_before :: "Job \<Rightarrow> Job \<Rightarrow> bool" where
  "ordered_before a b =
     (priority b < priority a \<or> (priority a = priority b \<and> created_at a < created_at b))"

fun first_row :: "Job \<Rightarrow> Job list \<Rightarrow> Job" where
  "first_row m [] = m"
| "first_row m (x # xs) = first_row (if ordered_before x m then x else m) xs"

definition dequeue_job :: "datetime \<Rightarrow> uuid set \<Rightarrow> World \<Rightarrow> uuid option \<times> World" where
  "dequeue_job now locked w =
     (let fallback = (case filter (eligible now locked) (jobs w) of
                        [] \<Rightarrow> None
                      | j # js \<Rightarrow> Some (job_id (first_row j js)))
      in case redis w of
           None \<Rightarrow> (fallback, w)
         | Some r \<Rightarrow>
             (case dequeue r of
                (Some jid, r') \<Rightarrow> (Some jid, w\<lparr>redis := Some r'\<rparr>)
              | (None, r') \<Rightarrow> (fallback, w)))"

section \<open>The API operations (app/api/jobs.py)\<close>

datatype http_error = HTTPException int string

text \<open>The validated request body of a submission (app/schemas/job.py).\<close>

record JobCreate =
  jc_name :: string
  jc_job_type :: JobType
  jc_priority :: int
  jc_payload :: json
  jc_max_retries :: int
  jc_scheduled_at :: "datetime option"

text \<open>
  \<open>create_job\<close>: \<open>new_id\<close> is the fresh \<open>uuid4\<close> of the inserted row, \<open>now\<close> the default of
  \<open>created_at\<close>; the other columns take the defaults of the table.
\<close>

definition create_job :: "uuid \<Rightarrow> datetime \<Rightarrow> string \<Rightarrow> JobCreate \<Rightarrow> World \<Rightarrow> Job \<times> World" where
  "create_job new_id now username data w =
     (let job = \<lparr>job_id = new_id, name = jc_name data, job_type = jc_job_type data,
                 status = QUEUED, priority = jc_priority data, payload = jc_payload data,
                 result = None, error_message = None, attempt = 0,
                 max_retries = jc_max_retries data, next_retry_at = None,
                 created_at = now, scheduled_at = jc_scheduled_at data,
                 started_at = None, completed_at = None, duration_seconds = None,
                 created_by = Some username, worker_id = None\<rparr>
      in (job,
          with_redis (\<lambda>r. increment_stat ''enqueued'' 1 (enqueue (job_id job) (priority job) r))
            (w\<lparr>jobs := jobs w @ [job]\<rparr>)))"

definition cancel_job :: "datetime \<Rightarrow> uuid \<Rightarrow> World \<Rightarrow> http_error + (Job \<times> World)" where
  "cancel_job now jid w =
     (case get_row jid (jobs w) of
        None \<Rightarrow> Inl (HTTPException 404 ''Job not found'')
      | Some job \<Rightarrow>
          if status job \<in> {COMPLETED, CANCELLED} then
            Inl (HTTPException 400
                   (''Cannot cancel job in '' @ [CHR 0x27] @ status_value (status job)
                    @ [CHR 0x27] @ '' state''))
          else
            let cancel = (\<lambda>j. j\<lparr>status := CANCELLED, completed_at := Some now\<rparr>)
            in Inr (cancel job,
                    with_redis (remove_job (job_id job))
                      (w\<lparr>jobs := update_row jid cancel (jobs w)\<rparr>)))"

definition retry_job :: "uuid \<Rightarrow> World \<Rightarrow> http_error + (Job \<times> World)" where
  "retry_job jid w =
     (case get_row jid (jobs w) of
        None \<Rightarrow> Inl (HTTPException 404 ''Job not found'')
      | Some job \<Rightarrow>
          if status job \<notin> {FAILED, CANCELLED} then
            Inl (HTTPException 400 ''Can only retry failed or cancelled jobs'')
          else
            let reset = (\<lambda>j. j\<lparr>status := QUEUED, attempt := 0, error_message := None,
                               result := None, started_at := None, completed_at := None,
                               duration_seconds := None, next_retry_at := None\<rparr>)
            in Inr (reset job,
                    with_redis (enqueue (job_id job) (priority job))
                      (w\<lparr>jobs := update_row jid reset (jobs w)\<rparr>)))"

section \<open>Sample inputs\<close>

text \<open>A freshly submitted e-mail job with a retry budget of 2, and an idle queue.\<close>

definition ex_job :: Job where
  "ex_job = \<lparr>job_id = ''j1'', name = ''mail'', job_type = EMAIL, status = QUEUED, priority = 5,
     payload = JObj [(''to'', JStr ''a@x'')], result = None, error_message = None, attempt = 0,
     max_retries = 2, next_retry_at = None, created_at = 0, scheduled_at = None,
     started_at = None, completed_at = None, duration_seconds = None,
     created_by = Some ''alice'', worker_id = None\<rparr>"

definition ex_redis :: Redis where
  "ex_redis = \<lparr>queue = [], processing = {}, stats = Map.empty, events = []\<rparr>"

text \<open>The same job claimed for its first attempt at instant 10, and a world holding it.\<close>

definition ex_running :: Job where
  "ex_running = ex_job\<lparr>status := RUNNING, attempt := 1, started_at := Some 10,
                        worker_id := Some ''w-1''\<rparr>"

definition ex_world :: World where
  "ex_world = \<lparr>jobs = [ex_running], redis = Some ex_redis\<rparr>"

text \<open>\<open>JobType.value\<close>, one way an f-string may render a member.\<close>

fun job_type_value :: "JobType \<Rightarrow> string" where
  "job_type_value EMAIL = ''email''"
| "job_type_value AI_TASK = ''ai_task''"
| "job_type_value DATA_CLEANING = ''data_cleaning''"

text \<open>A world holding the submitted job, and a handler that reports a sent mail.\<close>

definition ex_queued_world :: World where
  "ex_queued_world = \<lparr>jobs = [ex_job], redis = Some ex_redis\<rparr>"

definition email_sent :: handler where
  "email_sent p = Returned (JObj [(''status'', JStr ''sent'')])"

text \<open>A submission of the same job into an empty world, and the world after its cancellation at instant 3.\<close>

definition ex_data :: JobCreate where
  "ex_data = \<lparr>jc_name = ''mail'', jc_job_type = EMAIL, jc_priority = 5,
     jc_payload = JObj [(''to'', JStr ''a@x'')], jc_max_retries = 2, jc_scheduled_at = None\<rparr>"

definition ex_empty_world :: World where
  "ex_empty_world = \<lparr>jobs = [], redis = Some ex_redis\<rparr>"

definition ex_submitted :: World where
  "ex_submitted = snd (create_job ''j1'' 0 ''alice'' ex_data ex_empty_world)"

definition ex_cancelled :: World where
  "ex_cancelled = \<lparr>jobs = [ex_job\<lparr>status := CANCELLED, completed_at := Some 3\<rparr>],
                    redis = Some (ex_redis\<lparr>stats := [''enqueued'' \<mapsto> 1]\<rparr>)\<rparr>"

text \<open>
  The retry timeline of the submitted job under a handler that always raises: the
  dispatcher pulls the id, the first execution runs from instant 10 to 11, the retry
  scheduler sweeps at 15, the dispatcher pulls again, the second execution runs from 16
  to 17.
\<close>

definition always_raises :: handler where
  "always_raises p = Raised ''boom''"

definition ex_dispatched1 :: World where
  "ex_dispatched1 = snd (dequeue_job 9 {} ex_submitted)"

definition ex_attempt1 :: World where
  "ex_attempt1 = snd (execute default_settings job_type_value [EMAIL \<mapsto> always_raises]
                        ''w-1'' 10 11 {} ''j1'' ex_dispatched1)"

definition ex_swept :: World where
  "ex_swept = retry_sweep default_settings 15 {} ex_attempt1"

definition ex_dispatched2 :: World where
  "ex_dispatched2 = snd (dequeue_job 15 {} ex_swept)"

definition ex_attempt2 :: World where
  "ex_attempt2 = snd (execute default_settings job_type_value [EMAIL \<mapsto> always_raises]
                        ''w-2'' 16 17 {} ''j1'' ex_dispatched2)"

text \<open>A job of priority 0 waiting for its retry, due from instant 13.\<close>

definition ex_low :: Job where
  "ex_low = ex_job\<lparr>priority := 0, status := RETRYING, attempt := 1, started_at := Some 10,
                   worker_id := Some ''w-1'', next_retry_at := Some 13,
                   error_message := Some ''Attempt 1 failed: boom''\<rparr>"

text \<open>
  Attempts only grow between two states of the table: the rows are the same ids in the
  same order, and no row's \<open>attempt\<close> is lower than before.
\<close>

definition attempt_mono :: "Job list \<Rightarrow> Job list \<Rightarrow> bool" where
  "attempt_mono rows rows' =
     list_all2 (\<lambda>j j'. job_id j' = job_id j \<and> attempt j \<le> attempt j') rows rows'"

text \<open>The sample job permanently failed on its second attempt.\<close>

definition ex_failed :: Job where
  "ex_failed = ex_job\<lparr>status := FAILED, attempt := 2, started_at := Some 16,
                      worker_id := Some ''w-2'', next_retry_at := Some 13,
                      error_message := Some ''boom'', completed_at := Some 17,
                      duration_seconds := Some 1\<rparr>"

definition ex_failed_world :: World where
  "ex_failed_world = \<lparr>jobs = [ex_failed], redis = Some ex_redis\<rparr>"

text \<open>
  The life of one job as a list of rounds. A round is a sweep of the retry scheduler at
  \<open>t_sweep\<close> followed by an execution of the job by worker \<open>wid\<close>, claimed at \<open>t_claim\<close>
  and ended at \<open>t_end\<close>. The backoff taken in a round is the delay from the end of the
  execution to \<open>next_retry_at\<close> when the execution left the job RETRYING. A counter of the
  queue backend is read where the backend exists.
\<close>

definition backoff_taken :: "datetime \<Rightarrow> Job option \<Rightarrow> real list" where
  "backoff_taken t_end row =
     (case row of
        None \<Rightarrow> []
      | Some j \<Rightarrow>
          (if status j = RETRYING
           then (case next_retry_at j of None \<Rightarrow> [] | Some t \<Rightarrow> [t - t_end])
           else []))"

fun run_rounds ::
  "Settings \<Rightarrow> (JobType \<Rightarrow> string) \<Rightarrow> (JobType \<rightharpoonup> handler) \<Rightarrow> uuid
     \<Rightarrow> (datetime \<times> string \<times> datetime \<times> datetime) list \<Rightarrow> World \<Rightarrow> real list \<times> World" where
  "run_rounds cfg fmt HANDLER_MAP jid [] w = ([], w)"
| "run_rounds cfg fmt HANDLER_MAP jid ((t_sweep, wid, t_claim, t_end) # rs) w =
     (let w1 = retry_sweep cfg t_sweep {} w;
          w2 = snd (execute cfg fmt HANDLER_MAP wid t_claim t_end {} jid w1);
          rest = run_rounds cfg fmt HANDLER_MAP jid rs w2
      in (backoff_taken t_end (get_row jid (jobs w2)) @ fst rest, snd rest))"

definition counter :: "World \<Rightarrow> string \<Rightarrow> int option" where
  "counter w stat_name = map_option (\<lambda>r. stat r stat_name) (redis w)"

section \<open>Lookups after a write\<close>

lemma get_row_update_row:
  assumes "\<And>j. job_id (f j) = job_id j"
  shows "get_row k (update_row jid f rows) =
         (if k = jid then map_option f (get_row k rows) else get_row k rows)"
  using assms by (induction rows) (auto simp: update_row_def get_row_def)

text \<open>With a primary key, filtering a lookup by id is filtering the one row of that id.\<close>

lemma find_by_id_and:
  assumes "distinct (map job_id rows)"
  shows "find (\<lambda>j. job_id j = jid \<and> P j) rows =
         (case get_row jid rows of None \<Rightarrow> None | Some j \<Rightarrow> if P j then Some j else None)"
  using assms
proof (induction rows)
  case Nil
  then show ?case by (simp add: get_row_def)
next
  case (Cons a rows)
  show ?case
  proof (cases "job_id a = jid")
    case True
    from Cons.prems have "job_id a \<notin> job_id ` set rows" by simp
    with True have "\<forall>j\<in>set rows. job_id j \<noteq> jid" by blast
    then have "find (\<lambda>j. job_id j = jid \<and> P j) rows = None"
      by (auto simp: find_None_iff)
    with True show ?thesis by (simp add: get_row_def)
  next
    case False
    with Cons show ?thesis by (simp add: get_row_def)
  qed
qed

section \<open>The claim protocol\<close>

text \<open>
  Claim C3. On a table whose ids are unique, a claim of \<open>jid\<close> has exactly two outcomes.
  Either the row of \<open>jid\<close> exists with status PENDING, QUEUED or RETRYING and is not
  locked by another transaction: then the claim returns that row with status RUNNING,
  \<open>started_at\<close> the claim instant, \<open>worker_id\<close> the claiming executor and \<open>attempt\<close> one
  more than before, the table holds that row under \<open>jid\<close>, and every other row is as it
  was. Or there is no such row, and the claim returns nothing and leaves the table as it
  was.
\<close>

theorem claim_job_outcome:
  assumes "distinct (map job_id rows)"
  shows "(\<exists>job. get_row jid rows = Some job \<and> status job \<in> {PENDING, QUEUED, RETRYING}
            \<and> jid \<notin> locked
            \<and> fst (claim_job wid now locked jid rows)
                = Some (job\<lparr>status := RUNNING, started_at := Some now,
                             attempt := attempt job + 1, worker_id := Some wid\<rparr>)
            \<and> get_row jid (snd (claim_job wid now locked jid rows))
                = Some (job\<lparr>status := RUNNING, started_at := Some now,
                             attempt := attempt job + 1, worker_id := Some wid\<rparr>)
            \<and> (\<forall>k. k \<noteq> jid \<longrightarrow>
                  get_row k (snd (claim_job wid now locked jid rows)) = get_row k rows))
       \<or> (\<not> (\<exists>job. get_row jid rows = Some job \<and> status job \<in> {PENDING, QUEUED, RETRYING}
                  \<and> jid \<notin> locked)
          \<and> claim_job wid now locked jid rows = (None, rows))"
proof (cases "get_row jid rows")
  case None
  then show ?thesis
    by (simp add: claim_job_def find_by_id_and [OF assms])
next
  case (Some job)
  show ?thesis
  proof (cases "status job \<in> {PENDING, QUEUED, RETRYING} \<and> jid \<notin> locked")
    case True
    with Some show ?thesis
      by (simp add: claim_job_def find_by_id_and [OF assms] get_row_update_row Let_def)
  next
    case False
    with Some show ?thesis
      by (auto simp add: claim_job_def find_by_id_and [OF assms])
  qed
qed

theorem claim_job_outcome_witness:
  "distinct (map job_id [ex_job])
   \<and> claim_job ''w-1'' 10 {} ''j1'' [ex_job]
       = (Some (ex_job\<lparr>status := RUNNING, started_at := Some 10, attempt := 1,
                       worker_id := Some ''w-1''\<rparr>),
          [ex_job\<lparr>status := RUNNING, started_at := Some 10, attempt := 1,
                       worker_id := Some ''w-1''\<rparr>])
   \<and> claim_job ''w-1'' 10 {''j1''} ''j1'' [ex_job] = (None, [ex_job])"
  using claim_job_outcome [of "[ex_job]" "''j1''" "{}" "''w-1''" 10]
    claim_job_outcome [of "[ex_job]" "''j1''" "{''j1''}" "''w-1''" 10]
  by (simp add: claim_job_def ex_job_def update_row_def)

lemma get_row_id: "get_row jid rows = Some job \<Longrightarrow> job_id job = jid"
  by (auto simp: get_row_def find_Some_iff)

lemma redis_with_redis: "redis (with_redis f w) = map_option f (redis w)"
  by (simp add: with_redis_def split: option.split)

lemma jobs_with_redis: "jobs (with_redis f w) = jobs w"
  by (simp add: with_redis_def split: option.split)

section \<open>The retry policy\<close>

text \<open>
  Claim C2. When a failure is handled for a job whose \<open>attempt\<close> (as the claim left it)
  is below \<open>max_retries\<close>, the executor's job and the stored row get status RETRYING,
  \<open>next_retry_at\<close> = now + \<open>RETRY_BACKOFF_BASE\<close> to the power \<open>attempt\<close>, and the error
  message "Attempt <attempt> failed: <error>"; the \<open>retries\<close> counter grows by one, the
  id leaves the processing set, and the queue itself is untouched (no re-enqueue, no
  event). Otherwise the job is written FAILED with the error as message and
  \<open>completed_at\<close> set, \<open>next_retry_at\<close> is not written, and the \<open>failed\<close> counter grows
  by one while \<open>retries\<close> does not.
\<close>

theorem handle_failure_policy:
  "(let job' = fst (handle_failure cfg now job error w);
        w' = snd (handle_failure cfg now job error w)
    in if attempt job < max_retries job then
         job' = job\<lparr>status := RETRYING,
                     next_retry_at := Some (now + RETRY_BACKOFF_BASE cfg powi attempt job),
                     error_message :=
                       Some (''Attempt '' @ str_int (attempt job) @ '' failed: '' @ error)\<rparr>
         \<and> get_row (job_id job) (jobs w')
             = map_option
                 (\<lambda>row. row\<lparr>status := RETRYING,
                     next_retry_at := Some (now + RETRY_BACKOFF_BASE cfg powi attempt job),
                     error_message :=
                       Some (''Attempt '' @ str_int (attempt job) @ '' failed: '' @ error)\<rparr>)
                 (get_row (job_id job) (jobs w))
         \<and> (case redis w of
               None \<Rightarrow> redis w' = None
             | Some r \<Rightarrow>
                 (\<exists>r'. redis w' = Some r'
                    \<and> stat r' ''retries'' = stat r ''retries'' + 1
                    \<and> queue r' = queue r
                    \<and> processing r' = processing r - {job_id job}
                    \<and> events r' = events r))
       else
         status job' = FAILED \<and> error_message job' = Some error
         \<and> completed_at job' = Some now \<and> next_retry_at job' = next_retry_at job
         \<and> map_option status (get_row (job_id job) (jobs w'))
             = map_option (\<lambda>row. FAILED) (get_row (job_id job) (jobs w))
         \<and> (case redis w of
               None \<Rightarrow> redis w' = None
             | Some r \<Rightarrow>
                 (\<exists>r'. redis w' = Some r'
                    \<and> stat r' ''retries'' = stat r ''retries''
                    \<and> stat r' ''failed'' = stat r ''failed'' + 1
                    \<and> queue r' = queue r)))"
  by (simp add: handle_failure_def fail_job_def Let_def redis_with_redis jobs_with_redis
      get_row_update_row increment_stat_def mark_done_def publish_event_def stat_def
      option.map_comp comp_def
      split: option.split)

theorem handle_failure_policy_witness:
  "fst (handle_failure default_settings 11 ex_running ''boom'' ex_world)
     = ex_running\<lparr>status := RETRYING, next_retry_at := Some 13,
                  error_message := Some ''Attempt 1 failed: boom''\<rparr>
   \<and> get_row ''j1'' (jobs (snd (handle_failure default_settings 11 ex_running ''boom'' ex_world)))
     = Some (ex_running\<lparr>status := RETRYING, next_retry_at := Some 13,
                  error_message := Some ''Attempt 1 failed: boom''\<rparr>)
   \<and> map_option (\<lambda>r. stat r ''retries'')
        (redis (snd (handle_failure default_settings 11 ex_running ''boom'' ex_world))) = Some 1
   \<and> status (fst (handle_failure default_settings 17
                    (ex_running\<lparr>attempt := 2\<rparr>) ''boom'' ex_world)) = FAILED"
  using handle_failure_policy [of default_settings 11 ex_running "''boom''" ex_world]
    handle_failure_policy [of default_settings 17 "ex_running\<lparr>attempt := 2\<rparr>" "''boom''"
      ex_world]
  by (simp add: Let_def ex_running_def ex_job_def ex_world_def ex_redis_def
      default_settings_def str_int_def str_nat.simps digit_char_def get_row_def stat_def
      handle_failure_def fail_job_def with_redis_def update_row_def increment_stat_def
      mark_done_def publish_event_def)

lemma map_job_id_update_row:
  assumes "\<And>j. job_id (f j) = job_id j"
  shows "map job_id (update_row jid f rows) = map job_id rows"
  using assms by (induction rows) (auto simp: update_row_def)

text \<open>
  Claim C10. When a failure is handled while \<open>attempt < max_retries\<close>, the executor's job
  differs from what it was in \<open>status\<close>, \<open>next_retry_at\<close> and \<open>error_message\<close> only:
  \<open>attempt\<close>, \<open>result\<close>, \<open>started_at\<close>, \<open>completed_at\<close>, \<open>duration_seconds\<close>, \<open>priority\<close>,
  \<open>payload\<close>, \<open>worker_id\<close> and every other field are as before. In the table, the row of
  the job has those three columns written and no other, every other row is as it was, and
  no row is added or removed. So a job that had no \<open>completed_at\<close>, \<open>duration_seconds\<close> or
  \<open>result\<close> has none as it enters RETRYING.
\<close>

theorem handle_failure_frame:
  assumes "attempt job < max_retries job"
  shows "(let job' = fst (handle_failure cfg now job error w);
              w' = snd (handle_failure cfg now job error w)
          in job' = job\<lparr>status := status job', next_retry_at := next_retry_at job',
                          error_message := error_message job'\<rparr>
             \<and> attempt job' = attempt job \<and> result job' = result job
             \<and> started_at job' = started_at job \<and> completed_at job' = completed_at job
             \<and> duration_seconds job' = duration_seconds job \<and> priority job' = priority job
             \<and> payload job' = payload job \<and> worker_id job' = worker_id job
             \<and> job_id job' = job_id job \<and> name job' = name job
             \<and> job_type job' = job_type job \<and> max_retries job' = max_retries job
             \<and> created_at job' = created_at job \<and> scheduled_at job' = scheduled_at job
             \<and> created_by job' = created_by job
             \<and> (\<forall>k. get_row k (jobs w') =
                    (if k = job_id job
                     then map_option
                            (\<lambda>row. row\<lparr>status := status job',
                                        next_retry_at := next_retry_at job',
                                        error_message := error_message job'\<rparr>)
                            (get_row k (jobs w))
                     else get_row k (jobs w)))
             \<and> map job_id (jobs w') = map job_id (jobs w))"
  using assms
  by (simp add: handle_failure_def Let_def jobs_with_redis get_row_update_row
      map_job_id_update_row)

theorem handle_failure_frame_witness:
  "attempt ex_running < max_retries ex_running
   \<and> snd (handle_failure default_settings 11 ex_running ''boom'' ex_world)
     = \<lparr>jobs = [ex_running\<lparr>status := RETRYING, next_retry_at := Some 13,
                  error_message := Some ''Attempt 1 failed: boom''\<rparr>],
        redis = Some (ex_redis\<lparr>stats := [''retries'' \<mapsto> 1]\<rparr>)\<rparr>
   \<and> completed_at (fst (handle_failure default_settings 11 ex_running ''boom'' ex_world)) = None
   \<and> duration_seconds (fst (handle_failure default_settings 11 ex_running ''boom'' ex_world)) = None
   \<and> result (fst (handle_failure default_settings 11 ex_running ''boom'' ex_world)) = None"
  using handle_failure_frame [of ex_running default_settings 11 "''boom''" ex_world]
  by (simp add: Let_def ex_running_def ex_job_def ex_world_def ex_redis_def
      default_settings_def str_int_def str_nat.simps digit_char_def get_row_def stat_def
      handle_failure_def fail_job_def with_redis_def update_row_def increment_stat_def
      mark_done_def publish_event_def)

lemma claim_job_success:
  assumes "distinct (map job_id rows)" and "get_row jid rows = Some job"
    and "status job \<in> {PENDING, QUEUED, RETRYING}" and "jid \<notin> locked"
  shows "claim_job wid now locked jid rows =
           (Some (job\<lparr>status := RUNNING, started_at := Some now,
                       attempt := attempt job + 1, worker_id := Some wid\<rparr>),
            update_row jid (\<lambda>j. j\<lparr>status := RUNNING, started_at := Some now,
                       attempt := attempt j + 1, worker_id := Some wid\<rparr>) rows)"
  using assms(2-4) by (simp add: claim_job_def find_by_id_and [OF assms(1)])

section \<open>Outcomes of an execution\<close>

text \<open>
  Claim C7. When the executor claims a job (unique ids, the row claimable and unlocked), a
  handler is registered for its type and returns a result within the timeout, then
  \<open>execute\<close> returns true and the row is COMPLETED with the handler's result,
  \<open>completed_at\<close> the instant of the outcome, \<open>duration_seconds\<close> = \<open>completed_at\<close> minus
  \<open>started_at\<close>, and no error message (with \<open>attempt\<close> one more than before). In the
  queue backend, where there is one, the id leaves the processing set, the \<open>completed\<close>
  counter grows by one, and one \<open>job_completed\<close> event carrying the id and the duration is
  published; nothing else changes there.
\<close>

theorem execute_success:
  assumes "distinct (map job_id (jobs w))"
    and "get_row jid (jobs w) = Some job"
    and "status job \<in> {PENDING, QUEUED, RETRYING}" and "jid \<notin> locked"
    and "HANDLER_MAP (job_type job) = Some handler"
    and "handler (payload job) = Returned res"
  shows "fst (execute cfg fmt HANDLER_MAP wid t_claim t_end locked jid w) = True
    \<and> get_row jid (jobs (snd (execute cfg fmt HANDLER_MAP wid t_claim t_end locked jid w)))
        = Some (job\<lparr>status := COMPLETED, started_at := Some t_claim,
                    attempt := attempt job + 1, worker_id := Some wid, result := Some res,
                    completed_at := Some t_end, duration_seconds := Some (t_end - t_claim),
                    error_message := None\<rparr>)
    \<and> redis (snd (execute cfg fmt HANDLER_MAP wid t_claim t_end locked jid w))
        = (case redis w of
             None \<Rightarrow> None
           | Some r \<Rightarrow>
               Some (r\<lparr>processing := processing r - {jid},
                       stats := (stats r)(''completed'' \<mapsto> stat r ''completed'' + 1),
                       events := events r @
                         [[(''event'', JStr ''job_completed''), (''job_id'', JStr jid),
                           (''duration'', JNum (t_end - t_claim))]]\<rparr>))"
proof -
  have id: "job_id job = jid" using assms(2) by (rule get_row_id)
  show ?thesis
    using assms(5,6) id assms(2)
    by (simp add: execute_def claim_job_success [OF assms(1-4)] complete_job_def Let_def
        jobs_with_redis redis_with_redis get_row_update_row
        mark_done_def increment_stat_def publish_event_def stat_def
        split: option.split)
qed

theorem execute_success_witness:
  "distinct (map job_id (jobs ex_queued_world))
   \<and> get_row ''j1'' (jobs ex_queued_world) = Some ex_job
   \<and> status ex_job \<in> {PENDING, QUEUED, RETRYING} \<and> ''j1'' \<notin> {}
   \<and> [EMAIL \<mapsto> email_sent] (job_type ex_job) = Some email_sent
   \<and> email_sent (payload ex_job) = Returned (JObj [(''status'', JStr ''sent'')])
   \<and> execute default_settings job_type_value [EMAIL \<mapsto> email_sent] ''w-1'' 10 12 {} ''j1''
        ex_queued_world
      = (True,
         \<lparr>jobs = [ex_job\<lparr>status := COMPLETED, started_at := Some 10, attempt := 1,
                     worker_id := Some ''w-1'',
                     result := Some (JObj [(''status'', JStr ''sent'')]),
                     completed_at := Some 12, duration_seconds := Some 2\<rparr>],
          redis = Some (ex_redis\<lparr>stats := [''completed'' \<mapsto> 1],
                     events := [[(''event'', JStr ''job_completed''), (''job_id'', JStr ''j1''),
                                 (''duration'', JNum 2)]]\<rparr>)\<rparr>)"
  using execute_success [of ex_queued_world "''j1''" ex_job "{}" "[EMAIL \<mapsto> email_sent]"
      email_sent "JObj [(''status'', JStr ''sent'')]" default_settings job_type_value
      "''w-1''" 10 12]
  by (simp add: ex_queued_world_def ex_job_def ex_redis_def email_sent_def get_row_def
      execute_def claim_job_def complete_job_def update_row_def with_redis_def Let_def
      mark_done_def increment_stat_def publish_event_def stat_def)

text \<open>
  Claim C9. When the executor claims a job for whose type no handler is registered, then,
  whatever \<open>max_retries\<close> is, \<open>execute\<close> returns false and the row is FAILED with the
  message "No handler for type: <type>" and \<open>completed_at\<close> set, on the attempt of this
  claim (\<open>attempt\<close> is one more than before, so 1 for a fresh job). The job does not
  become RETRYING and \<open>next_retry_at\<close> is not written: it is what it was before the claim.
  The \<open>failed\<close> counter grows by one and a \<open>job_failed\<close> event is published; the
  \<open>retries\<close> counter does not change.
\<close>

theorem execute_no_handler:
  assumes "distinct (map job_id (jobs w))"
    and "get_row jid (jobs w) = Some job"
    and "status job \<in> {PENDING, QUEUED, RETRYING}" and "jid \<notin> locked"
    and "HANDLER_MAP (job_type job) = None"
  shows "fst (execute cfg fmt HANDLER_MAP wid t_claim t_end locked jid w) = False
    \<and> get_row jid (jobs (snd (execute cfg fmt HANDLER_MAP wid t_claim t_end locked jid w)))
        = Some (job\<lparr>status := FAILED, started_at := Some t_claim,
                    attempt := attempt job + 1, worker_id := Some wid,
                    error_message := Some (''No handler for type: '' @ fmt (job_type job)),
                    completed_at := Some t_end,
                    duration_seconds := Some (t_end - t_claim)\<rparr>)
    \<and> redis (snd (execute cfg fmt HANDLER_MAP wid t_claim t_end locked jid w))
        = (case redis w of
             None \<Rightarrow> None
           | Some r \<Rightarrow>
               Some (r\<lparr>processing := processing r - {jid},
                       stats := (stats r)(''failed'' \<mapsto> stat r ''failed'' + 1),
                       events := events r @
                         [[(''event'', JStr ''job_failed''), (''job_id'', JStr jid),
                           (''error'',
                            JStr (''No handler for type: '' @ fmt (job_type job)))]]\<rparr>))"
proof -
  have id: "job_id job = jid" using assms(2) by (rule get_row_id)
  show ?thesis
    using assms(5) id assms(2)
    by (simp add: execute_def claim_job_success [OF assms(1-4)] fail_job_def Let_def
        jobs_with_redis redis_with_redis get_row_update_row
        mark_done_def increment_stat_def publish_event_def stat_def
        split: option.split)
qed


theorem execute_no_handler_witness:
  "distinct (map job_id (jobs ex_queued_world))
   \<and> get_row ''j1'' (jobs ex_queued_world) = Some ex_job
   \<and> status ex_job \<in> {PENDING, QUEUED, RETRYING} \<and> ''j1'' \<notin> {}
   \<and> (Map.empty :: JobType \<rightharpoonup> handler) (job_type ex_job) = None
   \<and> execute default_settings job_type_value Map.empty ''w-1'' 10 12 {} ''j1'' ex_queued_world
      = (False,
         \<lparr>jobs = [ex_job\<lparr>status := FAILED, started_at := Some 10, attempt := 1,
                     worker_id := Some ''w-1'',
                     error_message := Some ''No handler for type: email'',
                     completed_at := Some 12, duration_seconds := Some 2\<rparr>],
          redis = Some (ex_redis\<lparr>stats := [''failed'' \<mapsto> 1],
                     events := [[(''event'', JStr ''job_failed''), (''job_id'', JStr ''j1''),
                                 (''error'', JStr ''No handler for type: email'')]]\<rparr>)\<rparr>)"
  using execute_no_handler [of ex_queued_world "''j1''" ex_job "{}" Map.empty
      default_settings job_type_value "''w-1''" 10 12]
  by (simp add: ex_queued_world_def ex_job_def ex_redis_def get_row_def
      execute_def claim_job_def fail_job_def update_row_def with_redis_def Let_def
      mark_done_def increment_stat_def publish_event_def stat_def)

lemma get_row_append_fresh:
  assumes "get_row jid rows = None" and "job_id job = jid"
  shows "get_row jid (rows @ [job]) = Some job"
  using assms by (induction rows) (auto simp: get_row_def split: if_splits)

lemma get_row_append_other:
  assumes "job_id job \<noteq> k"
  shows "get_row k (rows @ [job]) = get_row k rows"
  using assms by (induction rows) (auto simp: get_row_def)

lemma ex_submitted_eq:
  "ex_submitted = \<lparr>jobs = [ex_job],
      redis = Some (ex_redis\<lparr>queue := [(''j1'', - 5)], stats := [''enqueued'' \<mapsto> 1]\<rparr>)\<rparr>"
  by (simp add: ex_submitted_def create_job_def ex_data_def ex_empty_world_def ex_job_def
      ex_redis_def with_redis_def enqueue_def increment_stat_def stat_def Let_def)

text \<open>
  A handler that raises, or the timeout, sends the claimed job to \<open>_handle_failure\<close>
  with the text of the exception, or with the timeout message.
\<close>

lemma execute_recoverable_failure:
  assumes "distinct (map job_id (jobs w))"
    and "get_row jid (jobs w) = Some job"
    and "status job \<in> {PENDING, QUEUED, RETRYING}" and "jid \<notin> locked"
    and "HANDLER_MAP (job_type job) = Some handler"
    and "\<forall>res. handler (payload job) \<noteq> Returned res"
  shows "execute cfg fmt HANDLER_MAP wid t_claim t_end locked jid w =
           (False,
            snd (handle_failure cfg t_end
                   (job\<lparr>status := RUNNING, started_at := Some t_claim,
                         attempt := attempt job + 1, worker_id := Some wid\<rparr>)
                   (case handler (payload job) of
                      Raised e \<Rightarrow> e
                    | _ \<Rightarrow> ''Job timed out after '' @ str_int (JOB_TIMEOUT_SECONDS cfg)
                            @ ''s'')
                   (w\<lparr>jobs := update_row jid
                                 (\<lambda>j. j\<lparr>status := RUNNING, started_at := Some t_claim,
                                          attempt := attempt j + 1, worker_id := Some wid\<rparr>)
                                 (jobs w)\<rparr>)))"
proof (cases "handler (payload job)")
  case (Returned res)
  with assms(6) show ?thesis by blast
next
  case (Raised e)
  with assms(5) show ?thesis
    by (simp add: execute_def claim_job_success [OF assms(1-4)] Let_def)
next
  case TimedOut
  with assms(5) show ?thesis
    by (simp add: execute_def claim_job_success [OF assms(1-4)] Let_def)
qed

section \<open>Cancel and explicit retry\<close>

text \<open>
  Claim C8. For an existing job, \<open>cancel_job\<close> raises (and so writes nothing) exactly when
  the status is COMPLETED or CANCELLED. For every other status it returns the job with
  status CANCELLED and \<open>completed_at\<close> the instant of the call, the table holds that row
  under the id and every other row as it was, and the id is removed from the queue's
  sorted set and from the processing set.
\<close>

theorem cancel_job_outcome:
  assumes "get_row jid (jobs w) = Some job"
  shows "((\<exists>e. cancel_job now jid w = Inl e) \<longleftrightarrow> status job \<in> {COMPLETED, CANCELLED})
    \<and> (status job \<notin> {COMPLETED, CANCELLED} \<longrightarrow>
         (\<exists>w'. cancel_job now jid w
                  = Inr (job\<lparr>status := CANCELLED, completed_at := Some now\<rparr>, w')
            \<and> get_row jid (jobs w') = Some (job\<lparr>status := CANCELLED, completed_at := Some now\<rparr>)
            \<and> (\<forall>k. k \<noteq> jid \<longrightarrow> get_row k (jobs w') = get_row k (jobs w))
            \<and> (case redis w of
                  None \<Rightarrow> redis w' = None
                | Some r \<Rightarrow>
                    (\<exists>r'. redis w' = Some r'
                       \<and> map_of (queue r') = (map_of (queue r))(jid := None)
                       \<and> processing r' = processing r - {jid}
                       \<and> stats r' = stats r \<and> events r' = events r))))"
proof -
  have id: "job_id job = jid" using assms by (rule get_row_id)
  show ?thesis
    using assms id
    by (cases "redis w")
      (auto simp: cancel_job_def Let_def jobs_with_redis redis_with_redis get_row_update_row
        remove_job_def delete_conv')
qed

theorem cancel_job_outcome_witness:
  "get_row ''j1'' (jobs ex_submitted) = Some ex_job
   \<and> cancel_job 3 ''j1'' ex_submitted
       = Inr (ex_job\<lparr>status := CANCELLED, completed_at := Some 3\<rparr>, ex_cancelled)
   \<and> get_row ''j1'' (jobs ex_cancelled)
       = Some (ex_job\<lparr>status := CANCELLED, completed_at := Some 3\<rparr>)
   \<and> cancel_job 4 ''j1'' ex_cancelled
       = Inl (HTTPException 400
                (''Cannot cancel job in '' @ [CHR 0x27] @ ''cancelled'' @ [CHR 0x27]
                 @ '' state''))"
  using cancel_job_outcome [of "''j1''" ex_submitted ex_job 3]
    cancel_job_outcome [of "''j1''" ex_cancelled
      "ex_job\<lparr>status := CANCELLED, completed_at := Some 3\<rparr>" 4]
  by (simp add: ex_submitted_eq ex_cancelled_def get_row_def cancel_job_def Let_def
      with_redis_def remove_job_def update_row_def ex_job_def ex_redis_def)

text \<open>
  Claim C5. For an existing job, \<open>retry_job\<close> raises the 400 error (and so writes
  nothing) when the status is neither FAILED nor CANCELLED. Otherwise it returns the job
  with status QUEUED, \<open>attempt\<close> 0 and \<open>error_message\<close>, \<open>result\<close>, \<open>started_at\<close>,
  \<open>completed_at\<close>, \<open>duration_seconds\<close> and \<open>next_retry_at\<close> cleared, the table holds that
  row and every other row as it was, and the id is enqueued at the job's priority.
  Submitting a job under a fresh id, cancelling it and retrying it succeeds at each step
  and ends with status QUEUED and \<open>attempt\<close> 0: the row is again the row that the
  submission inserted.
\<close>

theorem retry_job_outcome:
  assumes "get_row jid (jobs w) = Some job"
  shows "(status job \<notin> {FAILED, CANCELLED} \<longrightarrow>
            retry_job jid w = Inl (HTTPException 400 ''Can only retry failed or cancelled jobs''))
    \<and> (status job \<in> {FAILED, CANCELLED} \<longrightarrow>
         (\<exists>w'. retry_job jid w
                  = Inr (job\<lparr>status := QUEUED, attempt := 0, error_message := None,
                              result := None, started_at := None, completed_at := None,
                              duration_seconds := None, next_retry_at := None\<rparr>, w')
            \<and> get_row jid (jobs w')
                = Some (job\<lparr>status := QUEUED, attempt := 0, error_message := None,
                              result := None, started_at := None, completed_at := None,
                              duration_seconds := None, next_retry_at := None\<rparr>)
            \<and> (\<forall>k. k \<noteq> jid \<longrightarrow> get_row k (jobs w') = get_row k (jobs w))
            \<and> (case redis w of
                  None \<Rightarrow> redis w' = None
                | Some r \<Rightarrow>
                    (\<exists>r'. redis w' = Some r'
                       \<and> map_of (queue r') = (map_of (queue r))(jid \<mapsto> - priority job)
                       \<and> processing r' = processing r
                       \<and> stats r' = stats r \<and> events r' = events r))))
    \<and> (get_row new_id (jobs w0) = None \<longrightarrow>
         (\<exists>j1 w1 j2 w2 j3 w3.
             create_job new_id t0 username data w0 = (j1, w1)
           \<and> cancel_job t1 new_id w1 = Inr (j2, w2)
           \<and> retry_job new_id w2 = Inr (j3, w3)
           \<and> status j3 = QUEUED \<and> attempt j3 = 0 \<and> j3 = j1
           \<and> get_row new_id (jobs w3) = Some j3))"
proof -
  have id: "job_id job = jid" using assms by (rule get_row_id)
  have a: "status job \<notin> {FAILED, CANCELLED} \<longrightarrow>
            retry_job jid w = Inl (HTTPException 400 ''Can only retry failed or cancelled jobs'')"
    using assms by (simp add: retry_job_def)
  have b: "status job \<in> {FAILED, CANCELLED} \<longrightarrow>
         (\<exists>w'. retry_job jid w
                  = Inr (job\<lparr>status := QUEUED, attempt := 0, error_message := None,
                              result := None, started_at := None, completed_at := None,
                              duration_seconds := None, next_retry_at := None\<rparr>, w')
            \<and> get_row jid (jobs w')
                = Some (job\<lparr>status := QUEUED, attempt := 0, error_message := None,
                              result := None, started_at := None, completed_at := None,
                              duration_seconds := None, next_retry_at := None\<rparr>)
            \<and> (\<forall>k. k \<noteq> jid \<longrightarrow> get_row k (jobs w') = get_row k (jobs w))
            \<and> (case redis w of
                  None \<Rightarrow> redis w' = None
                | Some r \<Rightarrow>
                    (\<exists>r'. redis w' = Some r'
                       \<and> map_of (queue r') = (map_of (queue r))(jid \<mapsto> - priority job)
                       \<and> processing r' = processing r
                       \<and> stats r' = stats r \<and> events r' = events r)))"
    using assms id
    by (cases "redis w")
      (auto simp: retry_job_def Let_def jobs_with_redis redis_with_redis get_row_update_row
        enqueue_def update_conv')
  have c: "get_row new_id (jobs w0) = None \<longrightarrow>
         (\<exists>j1 w1 j2 w2 j3 w3.
             create_job new_id t0 username data w0 = (j1, w1)
           \<and> cancel_job t1 new_id w1 = Inr (j2, w2)
           \<and> retry_job new_id w2 = Inr (j3, w3)
           \<and> status j3 = QUEUED \<and> attempt j3 = 0 \<and> j3 = j1
           \<and> get_row new_id (jobs w3) = Some j3)"
    by (simp add: create_job_def cancel_job_def retry_job_def Let_def jobs_with_redis
        get_row_append_fresh get_row_update_row)
  from a b c show ?thesis by blast
qed


theorem retry_job_outcome_witness:
  "get_row ''j1'' (jobs ex_cancelled) = Some (ex_job\<lparr>status := CANCELLED, completed_at := Some 3\<rparr>)
   \<and> get_row ''j1'' (jobs ex_empty_world) = None
   \<and> create_job ''j1'' 0 ''alice'' ex_data ex_empty_world = (ex_job, ex_submitted)
   \<and> cancel_job 3 ''j1'' ex_submitted
       = Inr (ex_job\<lparr>status := CANCELLED, completed_at := Some 3\<rparr>, ex_cancelled)
   \<and> retry_job ''j1'' ex_cancelled = Inr (ex_job, ex_submitted)
   \<and> status ex_job = QUEUED \<and> attempt ex_job = 0
   \<and> retry_job ''j1'' ex_submitted
       = Inl (HTTPException 400 ''Can only retry failed or cancelled jobs'')"
  using retry_job_outcome [of "''j1''" ex_cancelled
      "ex_job\<lparr>status := CANCELLED, completed_at := Some 3\<rparr>" "''j1''" ex_empty_world 0
      "''alice''" ex_data 3]
    retry_job_outcome [of "''j1''" ex_submitted ex_job "''j1''" ex_empty_world 0
      "''alice''" ex_data 3]
  by (simp add: ex_submitted_eq ex_cancelled_def get_row_def cancel_job_def retry_job_def
      create_job_def ex_data_def ex_empty_world_def Let_def enqueue_def increment_stat_def
      stat_def with_redis_def remove_job_def update_row_def ex_job_def ex_redis_def)

section \<open>The retry timeline\<close>

text \<open>Evaluation of the model at sample inputs unfolds these definitions.\<close>

lemmas ev = execute_def claim_job_def complete_job_def handle_failure_def fail_job_def
  retry_sweep_def retry_one_def due_def py_or_def update_row_def get_row_def with_redis_def
  enqueue_def mark_done_def increment_stat_def publish_event_def stat_def remove_job_def
  dequeue_job_def dequeue_def eligible_def ordered_before_def zless_def
  Let_def default_settings_def str_int_def str_nat.simps digit_char_def

lemma ex_dispatched1_eq:
  "dequeue_job 9 {} ex_submitted =
     (Some ''j1'', \<lparr>jobs = [ex_job],
      redis = Some (ex_redis\<lparr>processing := {''j1''}, stats := [''enqueued'' \<mapsto> 1]\<rparr>)\<rparr>)"
  by (simp add: ex_submitted_eq ex_job_def ex_redis_def ev)

lemma ex_attempt1_eq:
  "ex_attempt1 =
     \<lparr>jobs = [ex_job\<lparr>status := RETRYING, attempt := 1, started_at := Some 10,
                 worker_id := Some ''w-1'', next_retry_at := Some 13,
                 error_message := Some ''Attempt 1 failed: boom''\<rparr>],
      redis = Some (ex_redis\<lparr>stats := [''enqueued'' \<mapsto> 1, ''retries'' \<mapsto> 1]\<rparr>)\<rparr>"
  by (simp add: ex_attempt1_def ex_dispatched1_def ex_dispatched1_eq)
     (simp add: ex_job_def ex_redis_def always_raises_def ev)

lemma ex_swept_eq:
  "ex_swept =
     \<lparr>jobs = [ex_job\<lparr>status := RETRYING, attempt := 1, started_at := Some 10,
                 worker_id := Some ''w-1'', next_retry_at := Some 13,
                 error_message := Some ''Attempt 1 failed: boom''\<rparr>],
      redis = Some (ex_redis\<lparr>queue := [(''j1'', - 5)],
                 stats := [''enqueued'' \<mapsto> 1, ''retries'' \<mapsto> 1]\<rparr>)\<rparr>"
  by (simp add: ex_swept_def ex_attempt1_eq) (simp add: ex_job_def ex_redis_def ev)

lemma ex_dispatched2_eq:
  "dequeue_job 15 {} ex_swept =
     (Some ''j1'',
     \<lparr>jobs = [ex_job\<lparr>status := RETRYING, attempt := 1, started_at := Some 10,
                 worker_id := Some ''w-1'', next_retry_at := Some 13,
                 error_message := Some ''Attempt 1 failed: boom''\<rparr>],
      redis = Some (ex_redis\<lparr>processing := {''j1''},
                 stats := [''enqueued'' \<mapsto> 1, ''retries'' \<mapsto> 1]\<rparr>)\<rparr>)"
  by (simp add: ex_swept_eq) (simp add: ex_job_def ex_redis_def ev)

text \<open>
  Claim C1, as stated, fails on the sample job, submitted with \<open>max_retries = 2\<close> under a
  handler that always raises. The first execution claims it (\<open>attempt = 1\<close>) and leaves
  it RETRYING with \<open>next_retry_at\<close> = 11 + 2; a sweep before that instant does nothing;
  the sweep at 15 re-enqueues it. The second execution claims it (\<open>attempt = 2\<close>), finds
  \<open>attempt < max_retries\<close> false and writes it FAILED with the last error as message,
  where the claim has it RETRYING. There is no third attempt: nothing is left to pull and
  later sweeps change nothing. The \<open>retries\<close> counter ends at 1, where the claim has 2,
  and the \<open>failed\<close> counter at 1.
\<close>

theorem retry_timeline_max_retries_2:
  "max_retries ex_job = 2
   \<and> fst (dequeue_job 9 {} ex_submitted) = Some ''j1''
   \<and> ex_attempt1 =
     \<lparr>jobs = [ex_job\<lparr>status := RETRYING, attempt := 1, started_at := Some 10,
                 worker_id := Some ''w-1'', next_retry_at := Some 13,
                 error_message := Some ''Attempt 1 failed: boom''\<rparr>],
      redis = Some (ex_redis\<lparr>stats := [''enqueued'' \<mapsto> 1, ''retries'' \<mapsto> 1]\<rparr>)\<rparr>
   \<and> retry_sweep default_settings 12 {} ex_attempt1 = ex_attempt1
   \<and> fst (dequeue_job 15 {} ex_swept) = Some ''j1''
   \<and> ex_attempt2 =
     \<lparr>jobs = [ex_job\<lparr>status := FAILED, attempt := 2, started_at := Some 16,
                 worker_id := Some ''w-2'', next_retry_at := Some 13,
                 error_message := Some ''boom'', completed_at := Some 17,
                 duration_seconds := Some 1\<rparr>],
      redis = Some (ex_redis\<lparr>
                 stats := [''enqueued'' \<mapsto> 1, ''retries'' \<mapsto> 1, ''failed'' \<mapsto> 1],
                 events := [[(''event'', JStr ''job_failed''), (''job_id'', JStr ''j1''),
                             (''error'', JStr ''boom'')]]\<rparr>)\<rparr>
   \<and> fst (dequeue_job 18 {} ex_attempt2) = None
   \<and> retry_sweep default_settings 30 {} ex_attempt2 = ex_attempt2
   \<and> map status (jobs ex_attempt2) = [FAILED]
   \<and> map attempt (jobs ex_attempt2) = [2]
   \<and> counter ex_attempt2 ''retries'' = Some 1
   \<and> counter ex_attempt2 ''failed'' = Some 1"
proof -
  have a: "retry_sweep default_settings 12 {} ex_attempt1 = ex_attempt1"
    by (simp add: ex_attempt1_eq) (simp add: ex_job_def ex_redis_def ev)
  have b: "ex_attempt2 =
     \<lparr>jobs = [ex_job\<lparr>status := FAILED, attempt := 2, started_at := Some 16,
                 worker_id := Some ''w-2'', next_retry_at := Some 13,
                 error_message := Some ''boom'', completed_at := Some 17,
                 duration_seconds := Some 1\<rparr>],
      redis = Some (ex_redis\<lparr>
                 stats := [''enqueued'' \<mapsto> 1, ''retries'' \<mapsto> 1, ''failed'' \<mapsto> 1],
                 events := [[(''event'', JStr ''job_failed''), (''job_id'', JStr ''j1''),
                             (''error'', JStr ''boom'')]]\<rparr>)\<rparr>"
    by (simp add: ex_attempt2_def ex_dispatched2_def ex_dispatched2_eq)
       (simp add: ex_job_def ex_redis_def always_raises_def ev)
  have c: "fst (dequeue_job 18 {} ex_attempt2) = None"
    by (simp add: b) (simp add: ex_job_def ex_redis_def ev)
  have d: "retry_sweep default_settings 30 {} ex_attempt2 = ex_attempt2"
    by (simp add: b) (simp add: ex_job_def ex_redis_def ev)
  have f: "map status (jobs ex_attempt2) = [FAILED] \<and> map attempt (jobs ex_attempt2) = [2]
           \<and> counter ex_attempt2 ''retries'' = Some 1
           \<and> counter ex_attempt2 ''failed'' = Some 1"
    by (simp add: b) (simp add: ex_job_def ex_redis_def counter_def stat_def)
  show ?thesis
    using a b c d f
    by (simp add: ex_dispatched1_eq ex_dispatched2_eq ex_attempt1_eq [symmetric])
       (simp add: ex_job_def)
qed

section \<open>The retry scheduler's sweep\<close>

text \<open>
  Claim C4 (the code departs from it). A sweep that finds a due RETRYING job of priority
  0 enqueues its id with score \<open>- 5\<close>, the score of priority 5, and leaves the row as it
  was; enqueueing at the job's own priority would store score 0.
\<close>

theorem retry_sweep_priority_zero:
  "priority ex_low = 0 \<and> due 15 ex_low
   \<and> retry_sweep default_settings 15 {} \<lparr>jobs = [ex_low], redis = Some ex_redis\<rparr>
       = \<lparr>jobs = [ex_low], redis = Some (ex_redis\<lparr>queue := [(''j1'', - 5)]\<rparr>)\<rparr>
   \<and> enqueue ''j1'' (priority ex_low) ex_redis = ex_redis\<lparr>queue := [(''j1'', 0)]\<rparr>"
  by (simp add: ex_low_def ex_job_def ex_redis_def ev)

section \<open>The attempt counter over the operations\<close>

lemma attempt_mono_refl: "attempt_mono rows rows"
  by (simp add: attempt_mono_def list_all2_refl)

lemma attempt_mono_trans:
  "attempt_mono a b \<Longrightarrow> attempt_mono b c \<Longrightarrow> attempt_mono a c"
  unfolding attempt_mono_def list_all2_conv_all_nth
  by (metis order_trans)

lemma attempt_mono_update_row:
  assumes "\<And>j. job_id (f j) = job_id j \<and> attempt j \<le> attempt (f j)"
  shows "attempt_mono rows (update_row jid f rows)"
  using assms by (induction rows) (auto simp: attempt_mono_def update_row_def)

lemma attempt_mono_claim_job: "attempt_mono rows (snd (claim_job wid now locked jid rows))"
  by (auto simp: claim_job_def Let_def attempt_mono_refl intro!: attempt_mono_update_row
      split: option.split)

lemma attempt_mono_complete_job:
  "attempt_mono (jobs w)
     (jobs (case complete_job now job res w of Inl (e, j, w') \<Rightarrow> w' | Inr (j, w') \<Rightarrow> w'))"
  by (auto simp: complete_job_def Let_def jobs_with_redis intro!: attempt_mono_update_row
      split: option.split)

lemma attempt_mono_fail_job: "attempt_mono (jobs w) (jobs (snd (fail_job now job error w)))"
  by (auto simp: fail_job_def Let_def jobs_with_redis intro!: attempt_mono_update_row)

lemma attempt_mono_handle_failure:
  "attempt_mono (jobs w) (jobs (snd (handle_failure cfg now job error w)))"
  by (auto simp: handle_failure_def Let_def jobs_with_redis attempt_mono_fail_job
      intro!: attempt_mono_update_row)

lemma attempt_mono_retry_one: "attempt_mono (jobs w) (jobs (retry_one locked jid w))"
  by (auto simp: retry_one_def Let_def attempt_mono_refl intro!: attempt_mono_update_row
      split: option.split)

lemma attempt_mono_fold_retry_one:
  "attempt_mono (jobs w) (jobs (fold (retry_one locked) ids w))"
proof (induction ids arbitrary: w)
  case Nil
  show ?case by (simp add: attempt_mono_refl)
next
  case (Cons jid ids)
  have "attempt_mono (jobs w) (jobs (retry_one locked jid w))"
    by (rule attempt_mono_retry_one)
  moreover have "attempt_mono (jobs (retry_one locked jid w))
                   (jobs (fold (retry_one locked) ids (retry_one locked jid w)))"
    by (rule Cons.IH)
  ultimately show ?case by (simp add: attempt_mono_trans)
qed

lemma attempt_mono_retry_sweep: "attempt_mono (jobs w) (jobs (retry_sweep cfg now locked w))"
  by (simp add: retry_sweep_def Let_def attempt_mono_fold_retry_one)

lemma attempt_mono_cancel_job:
  "cancel_job now jid w = Inr (j, w') \<Longrightarrow> attempt_mono (jobs w) (jobs w')"
  by (auto simp: cancel_job_def Let_def jobs_with_redis intro!: attempt_mono_update_row
      split: option.splits if_splits)

lemma attempt_mono_execute:
  "attempt_mono (jobs w) (jobs (snd (execute cfg fmt HANDLER_MAP wid t_claim t_end locked jid w)))"
proof (cases "claim_job wid t_claim locked jid (jobs w)")
  case (Pair c rows)
  have r: "attempt_mono (jobs w) rows"
    using attempt_mono_claim_job [of "jobs w" wid t_claim locked jid] Pair by simp
  show ?thesis
  proof (cases c)
    case None
    with Pair show ?thesis by (simp add: execute_def attempt_mono_refl)
  next
    case (Some job)
    let ?w1 = "w\<lparr>jobs := rows\<rparr>"
    have j1: "jobs ?w1 = rows" by simp
    show ?thesis
    proof (cases "HANDLER_MAP (job_type job)")
      case None
      have "attempt_mono rows (jobs (snd (fail_job t_end job
              (''No handler for type: '' @ fmt (job_type job)) ?w1)))"
        using attempt_mono_fail_job [of ?w1] by simp
      with r have "attempt_mono (jobs w) (jobs (snd (fail_job t_end job
              (''No handler for type: '' @ fmt (job_type job)) ?w1)))"
        by (rule attempt_mono_trans)
      with Pair Some None show ?thesis by (simp add: execute_def)
    next
      case h: (Some handler)
      show ?thesis
      proof (cases "handler (payload job)")
        case (Returned res)
        show ?thesis
        proof (cases "complete_job t_end job res ?w1")
          case (Inl x)
          obtain e job2 w2 where x: "x = (e, job2, w2)" by (cases x) auto
          have "attempt_mono rows (jobs w2)"
            using attempt_mono_complete_job [of ?w1 t_end job res] Inl x by simp
          moreover have "attempt_mono (jobs w2) (jobs (snd (handle_failure cfg t_end job2 e w2)))"
            by (rule attempt_mono_handle_failure)
          ultimately have "attempt_mono (jobs w) (jobs (snd (handle_failure cfg t_end job2 e w2)))"
            using r by (blast intro: attempt_mono_trans)
          with Pair Some h Returned Inl x show ?thesis by (simp add: execute_def)
        next
          case (Inr y)
          obtain j2 w2 where y: "y = (j2, w2)" by (cases y) auto
          have "attempt_mono rows (jobs w2)"
            using attempt_mono_complete_job [of ?w1 t_end job res] Inr y by simp
          with r have "attempt_mono (jobs w) (jobs w2)" by (rule attempt_mono_trans)
          with Pair Some h Returned Inr y show ?thesis by (simp add: execute_def)
        qed
      next
        case (Raised e)
        have "attempt_mono rows (jobs (snd (handle_failure cfg t_end job e ?w1)))"
          using attempt_mono_handle_failure [of ?w1] by simp
        with r have "attempt_mono (jobs w) (jobs (snd (handle_failure cfg t_end job e ?w1)))"
          by (rule attempt_mono_trans)
        with Pair Some h Raised show ?thesis by (simp add: execute_def)
      next
        case TimedOut
        have "attempt_mono rows (jobs (snd (handle_failure cfg t_end job
                (''Job timed out after '' @ str_int (JOB_TIMEOUT_SECONDS cfg) @ ''s'') ?w1)))"
          using attempt_mono_handle_failure [of ?w1] by simp
        with r have "attempt_mono (jobs w) (jobs (snd (handle_failure cfg t_end job
                (''Job timed out after '' @ str_int (JOB_TIMEOUT_SECONDS cfg) @ ''s'') ?w1)))"
          by (rule attempt_mono_trans)
        with Pair Some h TimedOut show ?thesis by (simp add: execute_def)
      qed
    qed
  qed
qed

text \<open>
  Claim C6, as stated, fails at the explicit API retry: on the failed sample job, whose
  \<open>attempt\<close> is 2, \<open>retry_job\<close> succeeds and the row's \<open>attempt\<close> is 0 afterwards.
\<close>

theorem attempt_monotone_counterexample:
  "get_row ''j1'' (jobs ex_failed_world) = Some ex_failed \<and> attempt ex_failed = 2
   \<and> retry_job ''j1'' ex_failed_world
       = Inr (ex_job\<lparr>worker_id := Some ''w-2''\<rparr>,
              \<lparr>jobs = [ex_job\<lparr>worker_id := Some ''w-2''\<rparr>],
               redis = Some (ex_redis\<lparr>queue := [(''j1'', - 5)]\<rparr>)\<rparr>)
   \<and> attempt (ex_job\<lparr>worker_id := Some ''w-2''\<rparr>) = 0
   \<and> \<not> attempt_mono (jobs ex_failed_world) [ex_job\<lparr>worker_id := Some ''w-2''\<rparr>]"
  by (simp add: ex_failed_world_def ex_failed_def ex_job_def ex_redis_def attempt_mono_def ev
      retry_job_def)

text \<open>
  Claim C6, amended. Every operation of the core other than the explicit API retry
  leaves each row's \<open>attempt\<close> unchanged or increases it: the claim, the completion, the
  permanent failure, the failure handling, a whole execution, a sweep of the retry
  scheduler, and an accepted cancel. An accepted explicit API retry sets \<open>attempt\<close> to 0.
\<close>

theorem attempt_monotone_except_retry:
  "attempt_mono rows (snd (claim_job wid now locked jid rows))
   \<and> attempt_mono (jobs w)
        (jobs (case complete_job now job res w of Inl (e, j, w') \<Rightarrow> w' | Inr (j, w') \<Rightarrow> w'))
   \<and> attempt_mono (jobs w) (jobs (snd (fail_job now job error w)))
   \<and> attempt_mono (jobs w) (jobs (snd (handle_failure cfg now job error w)))
   \<and> attempt_mono (jobs w)
        (jobs (snd (execute cfg fmt HANDLER_MAP wid t_claim t_end locked jid w)))
   \<and> attempt_mono (jobs w) (jobs (retry_sweep cfg now locked w))
   \<and> (case cancel_job now jid w of
         Inl e \<Rightarrow> True
       | Inr (j, w') \<Rightarrow> attempt_mono (jobs w) (jobs w'))
   \<and> (case retry_job jid w of
         Inl e \<Rightarrow> True
       | Inr (j, w') \<Rightarrow>
           attempt j = 0 \<and> map_option attempt (get_row jid (jobs w')) = Some 0)"
proof -
  have cancel: "case cancel_job now jid w of
         Inl e \<Rightarrow> True
       | Inr (j, w') \<Rightarrow> attempt_mono (jobs w) (jobs w')"
    using attempt_mono_cancel_job [of now jid w] by (auto split: sum.split)
  have retry: "case retry_job jid w of
         Inl e \<Rightarrow> True
       | Inr (j, w') \<Rightarrow>
           attempt j = 0 \<and> map_option attempt (get_row jid (jobs w')) = Some 0"
    by (auto simp: retry_job_def Let_def jobs_with_redis get_row_update_row
        split: option.split)
  show ?thesis
    using cancel retry
    by (simp only: attempt_mono_claim_job attempt_mono_complete_job attempt_mono_fail_job
        attempt_mono_handle_failure attempt_mono_execute attempt_mono_retry_sweep simp_thms)
qed

theorem attempt_monotone_except_retry_witness:
  "attempt_mono (jobs ex_queued_world)
     (jobs (snd (execute default_settings job_type_value [EMAIL \<mapsto> email_sent] ''w-1'' 10 12
                   {} ''j1'' ex_queued_world)))
   \<and> cancel_job 3 ''j1'' ex_submitted
       = Inr (ex_job\<lparr>status := CANCELLED, completed_at := Some 3\<rparr>, ex_cancelled)
   \<and> attempt_mono (jobs ex_submitted) (jobs ex_cancelled)
   \<and> map_option attempt (get_row ''j1'' (jobs (snd (projr (retry_job ''j1'' ex_failed_world)))))
       = Some 0"
  using attempt_monotone_except_retry [of "[ex_job]" "''w-1''" 10 "{}" "''j1''"
      ex_queued_world ex_job JNull "''boom''" default_settings job_type_value
      "[EMAIL \<mapsto> email_sent]" 10 12]
    attempt_monotone_except_retry [of "[ex_job]" "''w-1''" 3 "{}" "''j1''"
      ex_submitted ex_job JNull "''boom''" default_settings job_type_value
      "[EMAIL \<mapsto> email_sent]" 10 12]
    attempt_monotone_except_retry [of "[ex_job]" "''w-1''" 3 "{}" "''j1''"
      ex_failed_world ex_job JNull "''boom''" default_settings job_type_value
      "[EMAIL \<mapsto> email_sent]" 10 12]
  by (simp add: ex_submitted_eq ex_cancelled_def ex_failed_world_def ex_failed_def
      ex_queued_world_def ex_job_def ex_redis_def email_sent_def attempt_mono_def ev
      cancel_job_def retry_job_def)

section \<open>The retry timeline in general\<close>

lemma attempt_mono_ids: "attempt_mono rows rows' \<Longrightarrow> map job_id rows' = map job_id rows"
  unfolding attempt_mono_def by (induction rows rows' rule: list_all2_induct) auto

lemma ids_execute:
  "map job_id (jobs (snd (execute cfg fmt HANDLER_MAP wid t_claim t_end locked jid w)))
     = map job_id (jobs w)"
  by (rule attempt_mono_ids) (rule attempt_mono_execute)

lemma ids_retry_sweep: "map job_id (jobs (retry_sweep cfg now locked w)) = map job_id (jobs w)"
  by (rule attempt_mono_ids) (rule attempt_mono_retry_sweep)

text \<open>A sweep changes no counter, and a row at most to QUEUED with no retry instant.\<close>

lemma redis_retry_one:
  "map_option stats (redis (retry_one locked jid w)) = map_option stats (redis w)"
  by (simp add: retry_one_def Let_def enqueue_def split: option.split)

lemma stats_fold_retry_one:
  "map_option stats (redis (fold (retry_one locked) ids w)) = map_option stats (redis w)"
  by (induction ids arbitrary: w) (simp_all add: redis_retry_one)

lemma stats_retry_sweep:
  "map_option stats (redis (retry_sweep cfg now locked w)) = map_option stats (redis w)"
  by (simp add: retry_sweep_def Let_def stats_fold_retry_one)

lemma row_retry_one:
  assumes "get_row k (jobs w) = Some j"
  shows "get_row k (jobs (retry_one locked jid w)) = Some j
       \<or> (k = jid \<and> get_row k (jobs (retry_one locked jid w))
                       = Some (j\<lparr>status := QUEUED, next_retry_at := None\<rparr>))"
  using assms
  by (auto simp: retry_one_def Let_def get_row_update_row split: option.split)

lemma row_fold_retry_one:
  assumes "get_row k (jobs w) = Some j"
  shows "get_row k (jobs (fold (retry_one locked) ids w)) = Some j
       \<or> (k \<in> set ids \<and> get_row k (jobs (fold (retry_one locked) ids w))
                       = Some (j\<lparr>status := QUEUED, next_retry_at := None\<rparr>))"
  using assms
proof (induction ids arbitrary: w j)
  case Nil
  then show ?case by simp
next
  case (Cons jid ids)
  from row_retry_one [OF Cons.prems, of locked jid]
  consider (same) "get_row k (jobs (retry_one locked jid w)) = Some j"
    | (queued) "k = jid" "get_row k (jobs (retry_one locked jid w))
                       = Some (j\<lparr>status := QUEUED, next_retry_at := None\<rparr>)"
    by blast
  then show ?case
  proof cases
    case same
    from Cons.IH [OF same] show ?thesis by auto
  next
    case queued
    from Cons.IH [OF queued(2)] queued(1) show ?thesis by auto
  qed
qed

lemma row_retry_sweep:
  assumes "distinct (map job_id (jobs w))" and "get_row k (jobs w) = Some j"
  shows "get_row k (jobs (retry_sweep cfg now locked w)) = Some j
       \<or> (status j = RETRYING \<and> get_row k (jobs (retry_sweep cfg now locked w))
                       = Some (j\<lparr>status := QUEUED, next_retry_at := None\<rparr>))"
proof -
  let ?ids = "map job_id (take (MAX_WORKERS cfg) (filter (due now) (jobs w)))"
  have "k \<in> set ?ids \<Longrightarrow> status j = RETRYING"
  proof -
    assume "k \<in> set ?ids"
    then obtain x where x: "x \<in> set (jobs w)" "due now x" "job_id x = k"
      by (auto dest!: in_set_takeD)
    from assms(2) have j: "j \<in> set (jobs w)" "job_id j = k"
      by (auto simp: get_row_def find_Some_iff)
    from assms(1) x(1,3) j have "x = j"
      by (metis distinct_map inj_onD)
    with x(2) show "status j = RETRYING" by (simp add: due_def)
  qed
  with row_fold_retry_one [OF assms(2), of locked ?ids] show ?thesis
    by (auto simp: retry_sweep_def Let_def)
qed


lemma stat_increment_stat:
  "stat (increment_stat n a r) k = (if k = n then stat r n + a else stat r k)"
  by (simp add: increment_stat_def stat_def)

lemma stat_mark_done: "stat (mark_done jid r) k = stat r k"
  by (simp add: mark_done_def stat_def)

lemma stat_publish_event: "stat (publish_event t d r) k = stat r k"
  by (simp add: publish_event_def stat_def)

text \<open>One execution of a job whose handler raises.\<close>

lemma execute_raises_step:
  assumes "distinct (map job_id (jobs w))"
    and "get_row jid (jobs w) = Some j"
    and "status j \<in> {PENDING, QUEUED, RETRYING}"
    and "HANDLER_MAP (job_type j) = Some handler"
    and "handler (payload j) = Raised e"
  shows "get_row jid (jobs (snd (execute cfg fmt HANDLER_MAP wid t_claim t_end {} jid w)))
     = Some (if attempt j + 1 < max_retries j
             then j\<lparr>status := RETRYING, started_at := Some t_claim,
                     attempt := attempt j + 1, worker_id := Some wid,
                     next_retry_at :=
                       Some (t_end + RETRY_BACKOFF_BASE cfg powi (attempt j + 1)),
                     error_message :=
                       Some (''Attempt '' @ str_int (attempt j + 1) @ '' failed: '' @ e)\<rparr>
             else j\<lparr>status := FAILED, started_at := Some t_claim,
                     attempt := attempt j + 1, worker_id := Some wid,
                     error_message := Some e, completed_at := Some t_end,
                     duration_seconds := Some (t_end - t_claim)\<rparr>)"
    and "map_option (\<lambda>r. stat r ''retries'')
           (redis (snd (execute cfg fmt HANDLER_MAP wid t_claim t_end {} jid w)))
         = map_option (\<lambda>r. stat r ''retries''
                             + (if attempt j + 1 < max_retries j then 1 else 0)) (redis w)"
    and "map_option (\<lambda>r. stat r ''failed'')
           (redis (snd (execute cfg fmt HANDLER_MAP wid t_claim t_end {} jid w)))
         = map_option (\<lambda>r. stat r ''failed''
                             + (if attempt j + 1 < max_retries j then 0 else 1)) (redis w)"
proof -
  have id: "job_id j = jid" using assms(2) by (rule get_row_id)
  have nl: "jid \<notin> {}" by simp
  have nr: "\<forall>res. handler (payload j) \<noteq> Returned res" using assms(5) by simp
  have ex: "execute cfg fmt HANDLER_MAP wid t_claim t_end {} jid w =
           (False,
            snd (handle_failure cfg t_end
                   (j\<lparr>status := RUNNING, started_at := Some t_claim,
                         attempt := attempt j + 1, worker_id := Some wid\<rparr>) e
                   (w\<lparr>jobs := update_row jid
                                 (\<lambda>j. j\<lparr>status := RUNNING, started_at := Some t_claim,
                                          attempt := attempt j + 1, worker_id := Some wid\<rparr>)
                                 (jobs w)\<rparr>)))"
    using execute_recoverable_failure [where w = w and jid = jid and job = j
        and locked = "{}" and HANDLER_MAP = HANDLER_MAP and handler = handler and cfg = cfg
        and fmt = fmt and wid = wid and t_claim = t_claim and t_end = t_end]
      assms nl nr
    by simp
  show "get_row jid (jobs (snd (execute cfg fmt HANDLER_MAP wid t_claim t_end {} jid w)))
     = Some (if attempt j + 1 < max_retries j
             then j\<lparr>status := RETRYING, started_at := Some t_claim,
                     attempt := attempt j + 1, worker_id := Some wid,
                     next_retry_at :=
                       Some (t_end + RETRY_BACKOFF_BASE cfg powi (attempt j + 1)),
                     error_message :=
                       Some (''Attempt '' @ str_int (attempt j + 1) @ '' failed: '' @ e)\<rparr>
             else j\<lparr>status := FAILED, started_at := Some t_claim,
                     attempt := attempt j + 1, worker_id := Some wid,
                     error_message := Some e, completed_at := Some t_end,
                     duration_seconds := Some (t_end - t_claim)\<rparr>)"
    using assms(2,5) id
    by (simp add: ex handle_failure_def fail_job_def Let_def jobs_with_redis
        get_row_update_row)
  show "map_option (\<lambda>r. stat r ''retries'')
           (redis (snd (execute cfg fmt HANDLER_MAP wid t_claim t_end {} jid w)))
         = map_option (\<lambda>r. stat r ''retries''
                             + (if attempt j + 1 < max_retries j then 1 else 0)) (redis w)"
    using assms(5)
    by (cases "redis w")
      (simp_all add: ex handle_failure_def fail_job_def Let_def redis_with_redis
        stat_increment_stat stat_mark_done stat_publish_event)
  show "map_option (\<lambda>r. stat r ''failed'')
           (redis (snd (execute cfg fmt HANDLER_MAP wid t_claim t_end {} jid w)))
         = map_option (\<lambda>r. stat r ''failed''
                             + (if attempt j + 1 < max_retries j then 0 else 1)) (redis w)"
    using assms(5)
    by (cases "redis w")
      (simp_all add: ex handle_failure_def fail_job_def Let_def redis_with_redis
        stat_increment_stat stat_mark_done stat_publish_event)
qed

text \<open>An execution of a job that is not claimable changes nothing.\<close>

lemma execute_not_claimable:
  assumes "distinct (map job_id (jobs w))"
    and "get_row jid (jobs w) = Some j"
    and "status j \<notin> {PENDING, QUEUED, RETRYING}"
  shows "execute cfg fmt HANDLER_MAP wid t_claim t_end locked jid w = (False, w)"
  using assms(2,3) by (simp add: execute_def claim_job_def find_by_id_and [OF assms(1)])

lemma stat_of_stats:
  "map_option stats x = map_option stats y
   \<Longrightarrow> map_option (\<lambda>r. stat r k) x = map_option (\<lambda>r. stat r k) y"
  by (cases x; cases y) (auto simp: stat_def)

text \<open>Once the job is FAILED, further rounds leave its row and the counters alone.\<close>

lemma run_rounds_failed:
  assumes "distinct (map job_id (jobs w))"
    and "get_row jid (jobs w) = Some j"
    and "status j = FAILED"
  shows "fst (run_rounds cfg fmt HANDLER_MAP jid rs w) = []
       \<and> get_row jid (jobs (snd (run_rounds cfg fmt HANDLER_MAP jid rs w))) = Some j
       \<and> map_option stats (redis (snd (run_rounds cfg fmt HANDLER_MAP jid rs w)))
           = map_option stats (redis w)"
  using assms
proof (induction rs arbitrary: w)
  case Nil
  then show ?case by simp
next
  case (Cons r rs)
  obtain t_sweep wid t_claim t_end where r: "r = (t_sweep, wid, t_claim, t_end)"
    by (cases r) auto
  let ?w1 = "retry_sweep cfg t_sweep {} w"
  have d1: "distinct (map job_id (jobs ?w1))"
    using Cons.prems(1) by (simp add: ids_retry_sweep)
  have g1: "get_row jid (jobs ?w1) = Some j"
    using row_retry_sweep [OF Cons.prems(1,2), of cfg t_sweep "{}"] Cons.prems(3) by auto
  have nc: "status j \<notin> {PENDING, QUEUED, RETRYING}" using Cons.prems(3) by simp
  have ex: "execute cfg fmt HANDLER_MAP wid t_claim t_end {} jid ?w1 = (False, ?w1)"
    by (rule execute_not_claimable [OF d1 g1 nc])
  have bt: "backoff_taken t_end (get_row jid (jobs ?w1)) = []"
    using g1 Cons.prems(3) by (simp add: backoff_taken_def)
  from Cons.IH [OF d1 g1 Cons.prems(3)] show ?case
    by (simp add: r ex bt Let_def stats_retry_sweep)
qed


lemma counter_stats:
  "map_option stats (redis w') = map_option stats (redis w) \<Longrightarrow> counter w' k = counter w k"
  unfolding counter_def by (rule stat_of_stats)

lemma counter_execute_raises:
  assumes "distinct (map job_id (jobs w))"
    and "get_row jid (jobs w) = Some j"
    and "status j \<in> {PENDING, QUEUED, RETRYING}"
    and "HANDLER_MAP (job_type j) = Some handler"
    and "handler (payload j) = Raised e"
  shows "counter (snd (execute cfg fmt HANDLER_MAP wid t_claim t_end {} jid w)) ''retries''
           = map_option (\<lambda>v. v + (if attempt j + 1 < max_retries j then 1 else 0))
               (counter w ''retries'')"
    and "counter (snd (execute cfg fmt HANDLER_MAP wid t_claim t_end {} jid w)) ''failed''
           = map_option (\<lambda>v. v + (if attempt j + 1 < max_retries j then 0 else 1))
               (counter w ''failed'')"
  using execute_raises_step(2,3) [where HANDLER_MAP = HANDLER_MAP and handler = handler
      and cfg = cfg and fmt = fmt and wid = wid and t_claim = t_claim and t_end = t_end,
      OF assms]
  by (simp_all add: counter_def option.map_comp comp_def)

lemma run_rounds_raises:
  assumes "distinct (map job_id (jobs w))"
    and "get_row jid (jobs w) = Some j"
    and "status j \<in> {PENDING, QUEUED, RETRYING}"
    and "HANDLER_MAP (job_type j) = Some handler"
    and "handler (payload j) = Raised e"
    and "nat (max 1 (max_retries j - attempt j)) \<le> length rs"
  shows "fst (run_rounds cfg fmt HANDLER_MAP jid rs w)
           = map (\<lambda>k. RETRY_BACKOFF_BASE cfg powi k) [attempt j + 1..max_retries j - 1]
    \<and> (\<exists>j'. get_row jid (jobs (snd (run_rounds cfg fmt HANDLER_MAP jid rs w))) = Some j'
           \<and> status j' = FAILED \<and> attempt j' = max (attempt j + 1) (max_retries j)
           \<and> error_message j' = Some e)
    \<and> counter (snd (run_rounds cfg fmt HANDLER_MAP jid rs w)) ''retries''
         = map_option (\<lambda>v. v + max 0 (max_retries j - 1 - attempt j)) (counter w ''retries'')
    \<and> counter (snd (run_rounds cfg fmt HANDLER_MAP jid rs w)) ''failed''
         = map_option (\<lambda>v. v + 1) (counter w ''failed'')"
  using assms
proof (induction rs arbitrary: w j)
  case Nil
  then show ?case by simp
next
  case (Cons r rs)
  obtain t_sweep wid t_claim t_end where r: "r = (t_sweep, wid, t_claim, t_end)"
    by (cases r) auto
  let ?w1 = "retry_sweep cfg t_sweep {} w"
  let ?w2 = "snd (execute cfg fmt HANDLER_MAP wid t_claim t_end {} jid ?w1)"
  let ?rest = "run_rounds cfg fmt HANDLER_MAP jid rs ?w2"
  have run: "run_rounds cfg fmt HANDLER_MAP jid (r # rs) w
               = (backoff_taken t_end (get_row jid (jobs ?w2)) @ fst ?rest, snd ?rest)"
    by (simp add: r Let_def)
  have d1: "distinct (map job_id (jobs ?w1))"
    using Cons.prems(1) by (simp add: ids_retry_sweep)
  have d2: "distinct (map job_id (jobs ?w2))"
    using d1 by (simp add: ids_execute)
  obtain j1 where g1: "get_row jid (jobs ?w1) = Some j1"
    and j1: "j1 = j \<or> j1 = j\<lparr>status := QUEUED, next_retry_at := None\<rparr>"
    using row_retry_sweep [OF Cons.prems(1,2), of cfg t_sweep "{}"] by auto
  have s1: "status j1 \<in> {PENDING, QUEUED, RETRYING}" using j1 Cons.prems(3) by auto
  have a1: "attempt j1 = attempt j" "max_retries j1 = max_retries j"
    "job_type j1 = job_type j" "payload j1 = payload j"
    using j1 by auto
  have h1: "HANDLER_MAP (job_type j1) = Some handler" "handler (payload j1) = Raised e"
    using Cons.prems(4,5) a1 by simp_all
  have c1: "counter ?w1 k = counter w k" for k
    by (rule counter_stats) (rule stats_retry_sweep)
  note step = execute_raises_step(1) [where HANDLER_MAP = HANDLER_MAP and handler = handler
      and cfg = cfg and fmt = fmt and wid = wid and t_claim = t_claim and t_end = t_end,
      OF d1 g1 s1 h1]
  note cnt = counter_execute_raises [where HANDLER_MAP = HANDLER_MAP and handler = handler
      and cfg = cfg and fmt = fmt and wid = wid and t_claim = t_claim and t_end = t_end,
      OF d1 g1 s1 h1]
  show ?case
  proof (cases "attempt j + 1 < max_retries j")
    case True
    let ?j2 = "j1\<lparr>status := RETRYING, started_at := Some t_claim,
                     attempt := attempt j1 + 1, worker_id := Some wid,
                     next_retry_at :=
                       Some (t_end + RETRY_BACKOFF_BASE cfg powi (attempt j1 + 1)),
                     error_message :=
                       Some (''Attempt '' @ str_int (attempt j1 + 1) @ '' failed: '' @ e)\<rparr>"
    have g2: "get_row jid (jobs ?w2) = Some ?j2" using step True a1 by simp
    have bt: "backoff_taken t_end (get_row jid (jobs ?w2))
                = [RETRY_BACKOFF_BASE cfg powi (attempt j + 1)]"
      by (simp add: g2 backoff_taken_def a1)
    have len: "nat (max 1 (max_retries ?j2 - attempt ?j2)) \<le> length rs"
      using Cons.prems(6) True a1 by simp
    have ih: "fst ?rest
           = map (\<lambda>k. RETRY_BACKOFF_BASE cfg powi k) [attempt ?j2 + 1..max_retries ?j2 - 1]
      \<and> (\<exists>j'. get_row jid (jobs (snd ?rest)) = Some j'
           \<and> status j' = FAILED \<and> attempt j' = max (attempt ?j2 + 1) (max_retries ?j2)
           \<and> error_message j' = Some e)
      \<and> counter (snd ?rest) ''retries''
         = map_option (\<lambda>v. v + max 0 (max_retries ?j2 - 1 - attempt ?j2))
             (counter ?w2 ''retries'')
      \<and> counter (snd ?rest) ''failed'' = map_option (\<lambda>v. v + 1) (counter ?w2 ''failed'')"
      by (rule Cons.IH [where j = ?j2, OF d2 g2 _ _ _ len]) (simp_all add: h1 a1 Cons.prems)
    have up: "[attempt j + 1..max_retries j - 1]
                = (attempt j + 1) # [attempt j + 1 + 1..max_retries j - 1]"
      using True by (simp add: upto_rec1)
    have seq: "fst (run_rounds cfg fmt HANDLER_MAP jid (r # rs) w)
           = map (\<lambda>k. RETRY_BACKOFF_BASE cfg powi k) [attempt j + 1..max_retries j - 1]"
      using ih by (simp add: run bt up a1)
    have fin: "\<exists>j'. get_row jid (jobs (snd (run_rounds cfg fmt HANDLER_MAP jid (r # rs) w)))
                  = Some j'
           \<and> status j' = FAILED \<and> attempt j' = max (attempt j + 1) (max_retries j)
           \<and> error_message j' = Some e"
      using ih True by (simp add: run a1 max_def)
    have cr: "counter (snd (run_rounds cfg fmt HANDLER_MAP jid (r # rs) w)) ''retries''
         = map_option (\<lambda>v. v + max 0 (max_retries j - 1 - attempt j)) (counter w ''retries'')"
      using ih True
      by (cases "counter w ''retries''")
        (simp_all add: run cnt c1 a1 option.map_comp comp_def max_def)
    have cf: "counter (snd (run_rounds cfg fmt HANDLER_MAP jid (r # rs) w)) ''failed''
         = map_option (\<lambda>v. v + 1) (counter w ''failed'')"
      using ih True by (simp add: run cnt c1 a1 option.map_comp comp_def)
    from seq fin cr cf show ?thesis by blast
  next
    case False
    let ?j2 = "j1\<lparr>status := FAILED, started_at := Some t_claim,
                     attempt := attempt j1 + 1, worker_id := Some wid,
                     error_message := Some e, completed_at := Some t_end,
                     duration_seconds := Some (t_end - t_claim)\<rparr>"
    have g2: "get_row jid (jobs ?w2) = Some ?j2" using step False a1 by simp
    have bt: "backoff_taken t_end (get_row jid (jobs ?w2)) = []"
      by (simp add: g2 backoff_taken_def)
    have st: "status ?j2 = FAILED" by simp
    note rest = run_rounds_failed [OF d2 g2 st, of cfg fmt HANDLER_MAP rs]
    have c2: "counter (snd ?rest) k = counter ?w2 k" for k
      by (rule counter_stats) (simp add: rest)
    have seq: "fst (run_rounds cfg fmt HANDLER_MAP jid (r # rs) w)
           = map (\<lambda>k. RETRY_BACKOFF_BASE cfg powi k) [attempt j + 1..max_retries j - 1]"
      using rest False by (simp add: run bt)
    have fin: "\<exists>j'. get_row jid (jobs (snd (run_rounds cfg fmt HANDLER_MAP jid (r # rs) w)))
                  = Some j'
           \<and> status j' = FAILED \<and> attempt j' = max (attempt j + 1) (max_retries j)
           \<and> error_message j' = Some e"
      using rest False by (simp add: run a1 max_def)
    have cr: "counter (snd (run_rounds cfg fmt HANDLER_MAP jid (r # rs) w)) ''retries''
         = map_option (\<lambda>v. v + max 0 (max_retries j - 1 - attempt j)) (counter w ''retries'')"
      using False
      by (cases "counter w ''retries''") (simp_all add: run c2 cnt c1 a1 max_def)
    have cf: "counter (snd (run_rounds cfg fmt HANDLER_MAP jid (r # rs) w)) ''failed''
         = map_option (\<lambda>v. v + 1) (counter w ''failed'')"
      using False by (simp add: run c2 cnt c1 a1)
    from seq fin cr cf show ?thesis by blast
  qed
qed


text \<open>One round: a sweep of the retry scheduler, then an execution of the job.\<close>

lemma round_raises:
  assumes "distinct (map job_id (jobs w))"
    and "get_row jid (jobs w) = Some j"
    and "status j \<in> {PENDING, QUEUED, RETRYING}"
    and "HANDLER_MAP (job_type j) = Some handler"
    and "handler (payload j) = Raised e"
  shows "distinct (map job_id
           (jobs (snd (run_rounds cfg fmt HANDLER_MAP jid [(t_sweep, wid, t_claim, t_end)] w))))
    \<and> (\<exists>j'. get_row jid
                (jobs (snd (run_rounds cfg fmt HANDLER_MAP jid
                              [(t_sweep, wid, t_claim, t_end)] w))) = Some j'
          \<and> attempt j' = attempt j + 1 \<and> max_retries j' = max_retries j
          \<and> job_type j' = job_type j \<and> payload j' = payload j
          \<and> (if attempt j + 1 < max_retries j
              then status j' = RETRYING
                 \<and> next_retry_at j'
                     = Some (t_end + RETRY_BACKOFF_BASE cfg powi (attempt j + 1))
                 \<and> error_message j'
                     = Some (''Attempt '' @ str_int (attempt j + 1) @ '' failed: '' @ e)
              else status j' = FAILED \<and> error_message j' = Some e
                 \<and> completed_at j' = Some t_end))"
proof -
  let ?w1 = "retry_sweep cfg t_sweep {} w"
  have d1: "distinct (map job_id (jobs ?w1))"
    using assms(1) by (simp add: ids_retry_sweep)
  obtain j1 where g1: "get_row jid (jobs ?w1) = Some j1"
    and j1: "j1 = j \<or> j1 = j\<lparr>status := QUEUED, next_retry_at := None\<rparr>"
    using row_retry_sweep [OF assms(1,2), of cfg t_sweep "{}"] by auto
  have s1: "status j1 \<in> {PENDING, QUEUED, RETRYING}" using j1 assms(3) by auto
  have a1: "attempt j1 = attempt j" "max_retries j1 = max_retries j"
    "job_type j1 = job_type j" "payload j1 = payload j"
    using j1 by auto
  have h1: "HANDLER_MAP (job_type j1) = Some handler" "handler (payload j1) = Raised e"
    using assms(4,5) a1 by simp_all
  note step = execute_raises_step(1) [where HANDLER_MAP = HANDLER_MAP and handler = handler
      and cfg = cfg and fmt = fmt and wid = wid and t_claim = t_claim and t_end = t_end,
      OF d1 g1 s1 h1]
  show ?thesis
    using d1 step a1 by (simp add: Let_def ids_execute)
qed

lemma str_int_1: "str_int 1 = ''1''"
  by (simp add: str_int_def str_nat.simps digit_char_def)

text \<open>
  Claim C1, amended. Take a job that has not been attempted yet (\<open>attempt = 0\<close>) and whose
  handler always raises the error \<open>e\<close>. With \<open>max_retries = 2\<close>, whatever the instants of
  the sweeps and executions: the first execution is attempt 1 and ends in RETRYING with
  \<open>next_retry_at\<close> the end of the execution plus \<open>RETRY_BACKOFF_BASE\<close> (2 seconds by
  default) and the error message "Attempt 1 failed: <e>"; the second execution is attempt
  2 and ends in FAILED with \<open>e\<close> as error message and \<open>completed_at\<close> set; the \<open>retries\<close>
  counter is incremented exactly once and the \<open>failed\<close> counter once. In general, over
  enough rounds (at least \<open>max_retries\<close>, and at least one), the backoffs taken form the
  sequence base^1, base^2, \<dots>, base^(\<open>max_retries\<close> - 1), the job ends FAILED with \<open>e\<close> as
  error message after \<open>max 1 max_retries\<close> attempts, the \<open>retries\<close> counter has grown by
  \<open>max 0 (max_retries - 1)\<close> and the \<open>failed\<close> counter by one.
\<close>

theorem failing_job_timeline:
  assumes "distinct (map job_id (jobs w))"
    and "get_row jid (jobs w) = Some job"
    and "status job \<in> {PENDING, QUEUED, RETRYING}"
    and "attempt job = 0"
    and "HANDLER_MAP (job_type job) = Some handler"
    and "handler (payload job) = Raised e"
  shows "(max_retries job = 2 \<longrightarrow>
           (\<exists>j1 j2.
              get_row jid (jobs (snd (run_rounds cfg fmt HANDLER_MAP jid
                                        [(t_sweep_a, wid_a, t_claim_a, t_end_a)] w))) = Some j1
            \<and> status j1 = RETRYING \<and> attempt j1 = 1
            \<and> next_retry_at j1 = Some (t_end_a + RETRY_BACKOFF_BASE cfg)
            \<and> error_message j1 = Some (''Attempt 1 failed: '' @ e)
            \<and> get_row jid (jobs (snd (run_rounds cfg fmt HANDLER_MAP jid
                                        [(t_sweep_a, wid_a, t_claim_a, t_end_a),
                                         (t_sweep_b, wid_b, t_claim_b, t_end_b)] w))) = Some j2
            \<and> status j2 = FAILED \<and> attempt j2 = 2 \<and> error_message j2 = Some e
            \<and> completed_at j2 = Some t_end_b)
         \<and> counter (snd (run_rounds cfg fmt HANDLER_MAP jid
                            [(t_sweep_a, wid_a, t_claim_a, t_end_a),
                             (t_sweep_b, wid_b, t_claim_b, t_end_b)] w)) ''retries''
             = map_option (\<lambda>v. v + 1) (counter w ''retries'')
         \<and> counter (snd (run_rounds cfg fmt HANDLER_MAP jid
                            [(t_sweep_a, wid_a, t_claim_a, t_end_a),
                             (t_sweep_b, wid_b, t_claim_b, t_end_b)] w)) ''failed''
             = map_option (\<lambda>v. v + 1) (counter w ''failed''))
    \<and> (nat (max 1 (max_retries job)) \<le> length rs \<longrightarrow>
           fst (run_rounds cfg fmt HANDLER_MAP jid rs w)
             = map (\<lambda>k. RETRY_BACKOFF_BASE cfg powi k) [1..max_retries job - 1]
         \<and> (\<exists>j'. get_row jid (jobs (snd (run_rounds cfg fmt HANDLER_MAP jid rs w))) = Some j'
                \<and> status j' = FAILED \<and> attempt j' = max 1 (max_retries job)
                \<and> error_message j' = Some e)
         \<and> counter (snd (run_rounds cfg fmt HANDLER_MAP jid rs w)) ''retries''
             = map_option (\<lambda>v. v + max 0 (max_retries job - 1)) (counter w ''retries'')
         \<and> counter (snd (run_rounds cfg fmt HANDLER_MAP jid rs w)) ''failed''
             = map_option (\<lambda>v. v + 1) (counter w ''failed''))"
proof (intro conjI impI)
  assume len: "nat (max 1 (max_retries job)) \<le> length rs"
  then have len': "nat (max 1 (max_retries job - attempt job)) \<le> length rs"
    using assms(4) by simp
  note gen = run_rounds_raises [where HANDLER_MAP = HANDLER_MAP and handler = handler
      and cfg = cfg and fmt = fmt, OF assms(1,2,3,5,6) len']
  show "fst (run_rounds cfg fmt HANDLER_MAP jid rs w)
             = map (\<lambda>k. RETRY_BACKOFF_BASE cfg powi k) [1..max_retries job - 1]"
    using gen assms(4) by simp
  show "\<exists>j'. get_row jid (jobs (snd (run_rounds cfg fmt HANDLER_MAP jid rs w))) = Some j'
                \<and> status j' = FAILED \<and> attempt j' = max 1 (max_retries job)
                \<and> error_message j' = Some e"
    using gen assms(4) by simp
  show "counter (snd (run_rounds cfg fmt HANDLER_MAP jid rs w)) ''retries''
             = map_option (\<lambda>v. v + max 0 (max_retries job - 1)) (counter w ''retries'')"
    using gen assms(4) by simp
  show "counter (snd (run_rounds cfg fmt HANDLER_MAP jid rs w)) ''failed''
             = map_option (\<lambda>v. v + 1) (counter w ''failed'')"
    using gen by simp
next
  assume m: "max_retries job = 2"
  let ?r1 = "(t_sweep_a, wid_a, t_claim_a, t_end_a)"
  let ?r2 = "(t_sweep_b, wid_b, t_claim_b, t_end_b)"
  let ?w1 = "snd (run_rounds cfg fmt HANDLER_MAP jid [?r1] w)"
  have two: "snd (run_rounds cfg fmt HANDLER_MAP jid [?r1, ?r2] w)
               = snd (run_rounds cfg fmt HANDLER_MAP jid [?r2] ?w1)"
    by (simp add: Let_def)
  from round_raises [where HANDLER_MAP = HANDLER_MAP and handler = handler
      and cfg = cfg and fmt = fmt and t_sweep = t_sweep_a and wid = wid_a
      and t_claim = t_claim_a and t_end = t_end_a, OF assms(1,2,3,5,6)]
  obtain j1 where d1: "distinct (map job_id (jobs ?w1))"
    and g1: "get_row jid (jobs ?w1) = Some j1"
    and p1: "attempt j1 = 1" "max_retries j1 = 2" "job_type j1 = job_type job"
      "payload j1 = payload job" "status j1 = RETRYING"
      "next_retry_at j1 = Some (t_end_a + RETRY_BACKOFF_BASE cfg)"
      "error_message j1 = Some (''Attempt 1 failed: '' @ e)"
    using assms(4) m by (auto simp: str_int_1)
  have cl1: "status j1 \<in> {PENDING, QUEUED, RETRYING}" using p1 by simp
  have h1: "HANDLER_MAP (job_type j1) = Some handler" "handler (payload j1) = Raised e"
    using assms(5,6) p1 by simp_all
  from round_raises [where HANDLER_MAP = HANDLER_MAP and handler = handler
      and cfg = cfg and fmt = fmt and t_sweep = t_sweep_b and wid = wid_b
      and t_claim = t_claim_b and t_end = t_end_b, OF d1 g1 cl1 h1]
  obtain j2
    where g2: "get_row jid (jobs (snd (run_rounds cfg fmt HANDLER_MAP jid [?r2] ?w1)))
                 = Some j2"
    and p2: "status j2 = FAILED" "attempt j2 = 2" "error_message j2 = Some e"
      "completed_at j2 = Some t_end_b"
    using p1 by auto
  show "\<exists>j1 j2.
              get_row jid (jobs (snd (run_rounds cfg fmt HANDLER_MAP jid
                                        [(t_sweep_a, wid_a, t_claim_a, t_end_a)] w))) = Some j1
            \<and> status j1 = RETRYING \<and> attempt j1 = 1
            \<and> next_retry_at j1 = Some (t_end_a + RETRY_BACKOFF_BASE cfg)
            \<and> error_message j1 = Some (''Attempt 1 failed: '' @ e)
            \<and> get_row jid (jobs (snd (run_rounds cfg fmt HANDLER_MAP jid
                                        [(t_sweep_a, wid_a, t_claim_a, t_end_a),
                                         (t_sweep_b, wid_b, t_claim_b, t_end_b)] w))) = Some j2
            \<and> status j2 = FAILED \<and> attempt j2 = 2 \<and> error_message j2 = Some e
            \<and> completed_at j2 = Some t_end_b"
    using g1 p1 g2 p2 unfolding two by blast
  have len2: "nat (max 1 (max_retries job - attempt job)) \<le> length [?r1, ?r2]"
    using assms(4) m by simp
  note gen2 = run_rounds_raises [where HANDLER_MAP = HANDLER_MAP and handler = handler
      and cfg = cfg and fmt = fmt, OF assms(1,2,3,5,6) len2]
  show "counter (snd (run_rounds cfg fmt HANDLER_MAP jid
                            [(t_sweep_a, wid_a, t_claim_a, t_end_a),
                             (t_sweep_b, wid_b, t_claim_b, t_end_b)] w)) ''retries''
             = map_option (\<lambda>v. v + 1) (counter w ''retries'')"
    using gen2 assms(4) m by simp
  show "counter (snd (run_rounds cfg fmt HANDLER_MAP jid
                            [(t_sweep_a, wid_a, t_claim_a, t_end_a),
                             (t_sweep_b, wid_b, t_claim_b, t_end_b)] w)) ''failed''
             = map_option (\<lambda>v. v + 1) (counter w ''failed'')"
    using gen2 by simp
qed

theorem failing_job_timeline_witness:
  "distinct (map job_id (jobs ex_submitted))
   \<and> get_row ''j1'' (jobs ex_submitted) = Some ex_job
   \<and> status ex_job \<in> {PENDING, QUEUED, RETRYING} \<and> attempt ex_job = 0
   \<and> max_retries ex_job = 2
   \<and> [EMAIL \<mapsto> always_raises] (job_type ex_job) = Some always_raises
   \<and> always_raises (payload ex_job) = Raised ''boom''
   \<and> nat (max 1 (max_retries ex_job))
       \<le> length [(9 :: real, ''w-1'', 10 :: real, 11 :: real), (15, ''w-2'', 16, 17)]
   \<and> run_rounds default_settings job_type_value [EMAIL \<mapsto> always_raises] ''j1''
        [(9, ''w-1'', 10, 11)] ex_submitted
      = ([2],
         \<lparr>jobs = [ex_job\<lparr>status := RETRYING, attempt := 1, started_at := Some 10,
                     worker_id := Some ''w-1'', next_retry_at := Some 13,
                     error_message := Some ''Attempt 1 failed: boom''\<rparr>],
          redis = Some (ex_redis\<lparr>queue := [(''j1'', - 5)],
                     stats := [''enqueued'' \<mapsto> 1, ''retries'' \<mapsto> 1]\<rparr>)\<rparr>)
   \<and> run_rounds default_settings job_type_value [EMAIL \<mapsto> always_raises] ''j1''
        [(9, ''w-1'', 10, 11), (15, ''w-2'', 16, 17)] ex_submitted
      = ([2],
         \<lparr>jobs = [ex_job\<lparr>status := FAILED, attempt := 2, started_at := Some 16,
                     worker_id := Some ''w-2'', next_retry_at := Some 13,
                     error_message := Some ''boom'', completed_at := Some 17,
                     duration_seconds := Some 1\<rparr>],
          redis = Some (ex_redis\<lparr>queue := [(''j1'', - 5)],
                     stats := [''enqueued'' \<mapsto> 1, ''retries'' \<mapsto> 1, ''failed'' \<mapsto> 1],
                     events := [[(''event'', JStr ''job_failed''), (''job_id'', JStr ''j1''),
                                 (''error'', JStr ''boom'')]]\<rparr>)\<rparr>)"
  using failing_job_timeline [where w = ex_submitted and jid = "''j1''" and job = ex_job
      and HANDLER_MAP = "[EMAIL \<mapsto> always_raises]" and handler = always_raises
      and e = "''boom''" and cfg = default_settings and fmt = job_type_value
      and t_sweep_a = 9 and wid_a = "''w-1''" and t_claim_a = 10 and t_end_a = 11
      and t_sweep_b = 15 and wid_b = "''w-2''" and t_claim_b = 16 and t_end_b = 17
      and rs = "[(9, ''w-1'', 10, 11), (15, ''w-2'', 16, 17)]"]
  by (simp add: ex_submitted_eq)
     (simp add: ex_job_def ex_redis_def always_raises_def backoff_taken_def ev)

end
